theory Spec2Isabelle
  imports Main
begin

section \<open>Python values and containers\<close>

text \<open>
  The program of \<^verbatim>\<open>calibrate_extrinsics.py\<close> reads two JSON documents, joins them per
  camera, solves one pose per camera and writes a JSON report. A document, once parsed by
  \<^verbatim>\<open>json.load\<close>, is a Python value: \<^verbatim>\<open>None\<close>, a bool, an int, a float, a string, a list
  or a dict (a JSON number without fraction and exponent parses to an int, any other to a
  float, which is a 64-bit floating-point number). The numeric values are kept abstract
  (the type parameter \<open>'a\<close>): no theorem below depends on floating-point arithmetic. A
  dict is an association list in insertion order; a dict of Python never holds one key
  twice, which theorems that iterate over a dict state as \<open>distinct (map fst d)\<close>.
\<close>

datatype 'a pyval =
    PNone
  | PBool bool
  | PInt 'a
  | PFloat 'a
  | PStr string
  | PList "'a pyval list"
  | PDict "(string \<times> 'a pyval) list"

text \<open>
  Exceptions that leave \<^verbatim>\<open>load_calibration_data\<close>. Nothing catches them and nothing
  turns them into text, so only the class is kept (and the key of a \<^verbatim>\<open>KeyError\<close>). The
  last four are raised while a file is opened and read: \<^verbatim>\<open>open\<close> on a file the process
  may not read or on a directory, the decoding of bytes that are not text in the encoding
  of \<^verbatim>\<open>open\<close>, and \<^verbatim>\<open>json.load\<close> on a document nested too deeply.
\<close>

datatype load_exn =
    KeyError string
  | TypeError
  | AttributeError
  | IndexError
  | ValueError
  | OverflowError
  | PermissionError
  | IsADirectoryError
  | UnicodeDecodeError
  | RecursionError

text \<open>
  Exceptions raised while one camera is solved. \<^verbatim>\<open>main\<close> catches every one of them and
  stores \<^verbatim>\<open>str(e)\<close>, so each carries what its text is made of: the message of the
  \<^verbatim>\<open>RuntimeError\<close> the program raises itself, the shapes of a failed numpy broadcast (a
  \<^verbatim>\<open>ValueError\<close> of numpy: source shape, target shape), the index, axis and size of a
  numpy index out of bounds, and the message of any exception raised inside OpenCV.
\<close>

datatype solve_exn =
    RuntimeError string
  | BroadcastError "nat list" "nat list"
  | IndexOutOfBounds nat nat nat
  | LibraryError string

text \<open>\<^verbatim>\<open>d[k] = v\<close> on a dict: an existing key keeps its place, a new key goes last.\<close>

fun dict_set :: "(string \<times> 'v) list \<Rightarrow> string \<Rightarrow> 'v \<Rightarrow> (string \<times> 'v) list" where
  "dict_set [] k v = [(k, v)]"
| "dict_set ((k', v') # d) k v = (if k' = k then (k, v) # d else (k', v') # dict_set d k v)"

text \<open>\<^verbatim>\<open>del d[k]\<close>, used by the program only right after \<^verbatim>\<open>d[k] = ...\<close>.\<close>

definition dict_del :: "(string \<times> 'v) list \<Rightarrow> string \<Rightarrow> (string \<times> 'v) list" where
  "dict_del d k = filter (\<lambda>kv. fst kv \<noteq> k) d"

text \<open>Python's \<^verbatim>\<open>a in b\<close> for two strings: \<open>a\<close> occurs in \<open>b\<close> as a contiguous piece.\<close>

definition is_substring :: "string \<Rightarrow> string \<Rightarrow> bool" where
  "is_substring a b = list_ex (\<lambda>i. take (length a) (drop i b) = a) [0..<Suc (length b)]"

text \<open>
  \<^verbatim>\<open>cam_id in x\<close> for a string \<open>cam_id\<close>: key membership in a dict, element membership
  in a list, substring test on a string, and a \<^verbatim>\<open>TypeError\<close> on \<^verbatim>\<open>None\<close>, a bool or a number.
\<close>

fun py_contains :: "'a pyval \<Rightarrow> string \<Rightarrow> load_exn + bool" where
  "py_contains (PDict d) k = Inr (k \<in> fst ` set d)"
| "py_contains (PList xs) k = Inr (PStr k \<in> set xs)"
| "py_contains (PStr s) k = Inr (is_substring k s)"
| "py_contains PNone k = Inl TypeError"
| "py_contains (PBool b) k = Inl TypeError"
| "py_contains (PInt n) k = Inl TypeError"
| "py_contains (PFloat n) k = Inl TypeError"

text \<open>
  \<^verbatim>\<open>x[k]\<close> for a string \<open>k\<close>: a dict gives the value or raises \<^verbatim>\<open>KeyError\<close>; a list and
  a string take integer indices only, and the other values are not subscriptable
  (\<^verbatim>\<open>TypeError\<close>).
\<close>

fun py_getitem :: "'a pyval \<Rightarrow> string \<Rightarrow> load_exn + 'a pyval" where
  "py_getitem (PDict d) k = (case map_of d k of None \<Rightarrow> Inl (KeyError k) | Some v \<Rightarrow> Inr v)"
| "py_getitem (PList xs) k = Inl TypeError"
| "py_getitem (PStr s) k = Inl TypeError"
| "py_getitem PNone k = Inl TypeError"
| "py_getitem (PBool b) k = Inl TypeError"
| "py_getitem (PInt n) k = Inl TypeError"
| "py_getitem (PFloat n) k = Inl TypeError"

text \<open>\<^verbatim>\<open>x.get(k, default)\<close>: only a dict has the method (\<^verbatim>\<open>AttributeError\<close> otherwise).\<close>

fun py_get :: "'a pyval \<Rightarrow> string \<Rightarrow> 'a pyval \<Rightarrow> load_exn + 'a pyval" where
  "py_get (PDict d) k dflt = Inr (case map_of d k of None \<Rightarrow> dflt | Some v \<Rightarrow> v)"
| "py_get (PList xs) k dflt = Inl AttributeError"
| "py_get (PStr s) k dflt = Inl AttributeError"
| "py_get PNone k dflt = Inl AttributeError"
| "py_get (PBool b) k dflt = Inl AttributeError"
| "py_get (PInt n) k dflt = Inl AttributeError"
| "py_get (PFloat n) k dflt = Inl AttributeError"

text \<open>\<^verbatim>\<open>x.items()\<close>: the pairs of a dict in insertion order.\<close>

fun py_items :: "'a pyval \<Rightarrow> load_exn + (string \<times> 'a pyval) list" where
  "py_items (PDict d) = Inr d"
| "py_items (PList xs) = Inl AttributeError"
| "py_items (PStr s) = Inl AttributeError"
| "py_items PNone = Inl AttributeError"
| "py_items (PBool b) = Inl AttributeError"
| "py_items (PInt n) = Inl AttributeError"
| "py_items (PFloat n) = Inl AttributeError"

section \<open>numpy arrays\<close>

text \<open>
  The element type of an array: floating point or integral, with its width in bits. The
  arrays of this program are created as \<^verbatim>\<open>np.float32\<close> and \<^verbatim>\<open>np.float64\<close>; the arrays OpenCV
  returns have the element type OpenCV chose.
\<close>

datatype dtype = Floating nat | Integral nat

abbreviation float32 :: dtype where
  "float32 \<equiv> Floating 32"

abbreviation float64 :: dtype where
  "float64 \<equiv> Floating 64"

text \<open>
  An array is its shape, its elements in row-major order and its element type; a
  well-formed array has \<open>prod_list shape\<close> elements. An element is the number it stands
  for, so a conversion to a wider floating-point type leaves it as it is.
\<close>

record 'a ndarray =
  shape :: "nat list"
  elems :: "'a list"
  dtype :: dtype

definition wf_array :: "'a ndarray \<Rightarrow> bool" where
  "wf_array a = (length (elems a) = prod_list (shape a))"

text \<open>
  \<^verbatim>\<open>np.array(x, dtype=...)\<close> first discovers the shape of \<open>x\<close>: a list adds a
  dimension of its length and all its items must have one shape; anything else is a
  scalar. \<open>None\<close> is the ragged case.
\<close>

fun discover_shape :: "'a pyval \<Rightarrow> nat list option" where
  "discover_shape (PList xs) =
     (case map discover_shape xs of
        [] \<Rightarrow> Some [0]
      | s # ss \<Rightarrow>
          (case s of
             None \<Rightarrow> None
           | Some sh \<Rightarrow> if list_all (\<lambda>t. t = Some sh) ss then Some (length xs # sh) else None))"
| "discover_shape PNone = Some []"
| "discover_shape (PBool b) = Some []"
| "discover_shape (PInt n) = Some []"
| "discover_shape (PFloat n) = Some []"
| "discover_shape (PStr s) = Some []"
| "discover_shape (PDict d) = Some []"

text \<open>The scalars of a nested list, in row-major order.\<close>

fun leaves :: "'a pyval \<Rightarrow> 'a pyval list" where
  "leaves (PList xs) = concat (map leaves xs)"
| "leaves PNone = [PNone]"
| "leaves (PBool b) = [PBool b]"
| "leaves (PInt n) = [PInt n]"
| "leaves (PFloat n) = [PFloat n]"
| "leaves (PStr s) = [PStr s]"
| "leaves (PDict d) = [PDict d]"

text \<open>Converting the scalars one by one; the first failure is the exception raised.\<close>

fun convert_all :: "('b \<Rightarrow> 'e + 'c) \<Rightarrow> 'b list \<Rightarrow> 'e + 'c list" where
  "convert_all f [] = Inr []"
| "convert_all f (x # xs) =
     (case f x of
        Inl e \<Rightarrow> Inl e
      | Inr y \<Rightarrow> (case convert_all f xs of Inl e \<Rightarrow> Inl e | Inr ys \<Rightarrow> Inr (y # ys)))"

text \<open>
  \<^verbatim>\<open>np.array(x, dtype=dt)\<close>. Two things belong to numpy and are parameters: the largest
  number of dimensions an array may have (\<open>maxdims\<close>; deeper nesting cannot be stored as
  numbers) and the conversion of one Python scalar to an element of type \<open>dt\<close>
  (\<open>convert\<close>; the program passes \<^verbatim>\<open>np.float32\<close>, whose conversion \<open>as_float32\<close> raises on
  a dict or on a string that is not a number). A ragged list raises \<^verbatim>\<open>ValueError\<close> before
  any scalar is converted.
\<close>

definition np_array ::
  "nat \<Rightarrow> dtype \<Rightarrow> ('a pyval \<Rightarrow> load_exn + 'a) \<Rightarrow> 'a pyval \<Rightarrow> load_exn + 'a ndarray" where
  "np_array maxdims dt convert x =
     (case discover_shape x of
        None \<Rightarrow> Inl ValueError
      | Some sh \<Rightarrow>
          if maxdims < length sh then Inl ValueError
          else (case convert_all convert (leaves x) of
                  Inl e \<Rightarrow> Inl e
                | Inr xs \<Rightarrow> Inr \<lparr>shape = sh, elems = xs, dtype = dt\<rparr>))"

text \<open>\<^verbatim>\<open>a.shape[0]\<close>: an array of no dimension has an empty shape tuple (\<^verbatim>\<open>IndexError\<close>).\<close>

definition shape0 :: "'a ndarray \<Rightarrow> load_exn + nat" where
  "shape0 a = (case shape a of [] \<Rightarrow> Inl IndexError | n # _ \<Rightarrow> Inr n)"

section \<open>Loading: \<^verbatim>\<open>load_calibration_data\<close>\<close>

text \<open>
  What \<^verbatim>\<open>open\<close> followed by \<^verbatim>\<open>json.load\<close> does at a path: \<^verbatim>\<open>open\<close> finds no file
  (\<^verbatim>\<open>FileNotFoundError\<close>); \<^verbatim>\<open>json.load\<close> rejects the text (\<^verbatim>\<open>JSONDecodeError\<close>, with its
  text); one of the two raises an exception of another class (a file that exists but
  cannot be opened, or whose bytes cannot be decoded as text); or the document is parsed.
\<close>

datatype 'a json_file = Missing | Invalid string | Raises load_exn | Parsed "'a pyval"

text \<open>The entry the loader builds for one camera (a dict with these four keys).\<close>

record 'a camera_data =
  K :: "'a ndarray"
  dist :: "'a ndarray"
  points_3d :: "'a ndarray"
  points_2d :: "'a ndarray"

text \<open>
  Lines 44 to 57: the dict display evaluates its four values in order, each a
  subscript followed by \<^verbatim>\<open>np.array(..., dtype=np.float32)\<close>; the first exception leaves
  the function.
\<close>

definition build_entry ::
  "nat \<Rightarrow> ('a pyval \<Rightarrow> load_exn + 'a) \<Rightarrow> 'a pyval \<Rightarrow> 'a pyval \<Rightarrow> load_exn + 'a camera_data" where
  "build_entry maxdims as_float32 int_data obs_data =
     (case py_getitem int_data ''K'' of Inl e \<Rightarrow> Inl e | Inr k \<Rightarrow>
     (case np_array maxdims float32 as_float32 k of Inl e \<Rightarrow> Inl e | Inr karr \<Rightarrow>
     (case py_getitem int_data ''distortion'' of Inl e \<Rightarrow> Inl e | Inr d \<Rightarrow>
     (case np_array maxdims float32 as_float32 d of Inl e \<Rightarrow> Inl e | Inr darr \<Rightarrow>
     (case py_getitem obs_data ''points_3d'' of Inl e \<Rightarrow> Inl e | Inr p3 \<Rightarrow>
     (case np_array maxdims float32 as_float32 p3 of Inl e \<Rightarrow> Inl e | Inr p3arr \<Rightarrow>
     (case py_getitem obs_data ''points_2d'' of Inl e \<Rightarrow> Inl e | Inr p2 \<Rightarrow>
     (case np_array maxdims float32 as_float32 p2 of Inl e \<Rightarrow> Inl e | Inr p2arr \<Rightarrow>
        Inr \<lparr>K = karr, dist = darr, points_3d = p3arr, points_2d = p2arr\<rparr>))))))))"

text \<open>
  The loop of lines 37 to 62 over \<^verbatim>\<open>obs_cameras.items()\<close>. The state is
  \<^verbatim>\<open>structured_data\<close> and the lines printed so far; the result is the printed lines and
  either the exception that left the loop or the final \<^verbatim>\<open>structured_data\<close>.
\<close>

fun load_loop ::
  "nat \<Rightarrow> ('a pyval \<Rightarrow> load_exn + 'a) \<Rightarrow> 'a pyval \<Rightarrow> (string \<times> 'a pyval) list \<Rightarrow>
   (string \<times> 'a camera_data) list \<Rightarrow> string list \<Rightarrow>
   string list \<times> (load_exn + (string \<times> 'a camera_data) list)" where
  "load_loop maxdims as_float32 intrinsics_data [] structured_data out =
     (out, Inr structured_data)"
| "load_loop maxdims as_float32 intrinsics_data ((cam_id, obs_data) # rest) structured_data out =
     (case py_contains intrinsics_data cam_id of
        Inl e \<Rightarrow> (out, Inl e)
      | Inr False \<Rightarrow>
          load_loop maxdims as_float32 intrinsics_data rest structured_data
            (out @ [''Warning: Intrinsics for '' @ cam_id @ '' not found. Skipping.''])
      | Inr True \<Rightarrow>
          (case py_getitem intrinsics_data cam_id of
             Inl e \<Rightarrow> (out, Inl e)
           | Inr int_data \<Rightarrow>
               (case build_entry maxdims as_float32 int_data obs_data of
                  Inl e \<Rightarrow> (out, Inl e)
                | Inr entry \<Rightarrow>
                    (case shape0 (points_3d entry) of
                       Inl e \<Rightarrow> (out, Inl e)
                     | Inr n3 \<Rightarrow>
                         (case shape0 (points_2d entry) of
                            Inl e \<Rightarrow> (out, Inl e)
                          | Inr n2 \<Rightarrow>
                              if n3 \<noteq> n2 then
                                load_loop maxdims as_float32 intrinsics_data rest
                                  (dict_del (dict_set structured_data cam_id entry) cam_id)
                                  (out @ [''Error: Mismatch in 3D/2D point count for '' @ cam_id
                                          @ ''. Skipping.''])
                              else
                                load_loop maxdims as_float32 intrinsics_data rest
                                  (dict_set structured_data cam_id entry) out)))))"

text \<open>
  \<^verbatim>\<open>load_calibration_data\<close>: \<open>fs\<close> is the file system as \<^verbatim>\<open>open\<close> and \<^verbatim>\<open>json.load\<close>
  see it. The observations file is opened only after the intrinsics file has parsed. The
  \<^verbatim>\<open>try\<close> statement of lines 19 to 30 catches \<^verbatim>\<open>FileNotFoundError\<close> and
  \<^verbatim>\<open>json.JSONDecodeError\<close> only: for these the loader prints one line and returns the
  empty dict; any other exception of \<^verbatim>\<open>open\<close> or \<^verbatim>\<open>json.load\<close> leaves the function.
\<close>

definition load_calibration_data ::
  "nat \<Rightarrow> ('a pyval \<Rightarrow> load_exn + 'a) \<Rightarrow> (string \<Rightarrow> 'a json_file) \<Rightarrow> string \<Rightarrow> string \<Rightarrow>
   string list \<times> (load_exn + (string \<times> 'a camera_data) list)" where
  "load_calibration_data maxdims as_float32 fs intrinsics_path observations_path =
     (let out = [''Loading data from '' @ intrinsics_path @ '' and '' @ observations_path @ ''...'']
      in case fs intrinsics_path of
           Missing \<Rightarrow>
             (out @ [''ERROR: Missing file '' @ intrinsics_path @ ''. Aborting.''], Inr [])
         | Invalid msg \<Rightarrow>
             (out @ [''ERROR: Invalid JSON format in a file. '' @ msg @ ''. Aborting.''], Inr [])
         | Raises e \<Rightarrow> (out, Inl e)
         | Parsed intrinsics_data \<Rightarrow>
             (case fs observations_path of
                Missing \<Rightarrow>
                  (out @ [''ERROR: Missing file '' @ observations_path @ ''. Aborting.''], Inr [])
              | Invalid msg \<Rightarrow>
                  (out @ [''ERROR: Invalid JSON format in a file. '' @ msg @ ''. Aborting.''],
                   Inr [])
              | Raises e \<Rightarrow> (out, Inl e)
              | Parsed observations_data \<Rightarrow>
                  (case py_get observations_data ''cameras'' (PDict []) of
                     Inl e \<Rightarrow> (out, Inl e)
                   | Inr obs_cameras \<Rightarrow>
                       (case py_items obs_cameras of
                          Inl e \<Rightarrow> (out, Inl e)
                        | Inr items \<Rightarrow>
                            load_loop maxdims as_float32 intrinsics_data items [] out))))"

section \<open>Solving one camera: \<^verbatim>\<open>calculate_extrinsics\<close>\<close>

text \<open>The text \<^verbatim>\<open>str(e)\<close> of an exception raised while solving.\<close>

fun show_nat :: "nat \<Rightarrow> string" where
  "show_nat n =
     (if n < 10 then [''0123456789'' ! n]
      else show_nat (n div 10) @ [''0123456789'' ! (n mod 10)])"

fun show_dims :: "nat list \<Rightarrow> string" where
  "show_dims [] = []"
| "show_dims [n] = show_nat n"
| "show_dims (n # m # ns) = show_nat n @ '','' @ show_dims (m # ns)"

definition show_shape :: "nat list \<Rightarrow> string" where
  "show_shape sh =
     (case sh of
        [] \<Rightarrow> ''()''
      | [n] \<Rightarrow> ''('' @ show_nat n @ '',)''
      | _ \<Rightarrow> ''('' @ show_dims sh @ '')'')"

fun py_str :: "solve_exn \<Rightarrow> string" where
  "py_str (RuntimeError msg) = msg"
| "py_str (BroadcastError src dst) =
     ''could not broadcast input array from shape '' @ show_shape src
       @ '' into shape '' @ show_shape dst"
| "py_str (IndexOutOfBounds i axis n) =
     ''index '' @ show_nat i @ '' is out of bounds for axis '' @ show_nat axis
       @ '' with size '' @ show_nat n"
| "py_str (LibraryError msg) = msg"

text \<open>
  Assignment to a slice broadcasts the source to the shape of the slice. numpy first
  drops leading dimensions of length 1 from a source that has more dimensions than the
  target, then pads the source shape with 1 on the left; each source dimension must be 1
  or equal to the target's.
\<close>

fun strip_ones :: "nat \<Rightarrow> nat list \<Rightarrow> nat list" where
  "strip_ones n [] = []"
| "strip_ones n (d # ds) = (if n < Suc (length ds) \<and> d = 1 then strip_ones n ds else d # ds)"

fun bcast :: "nat list \<Rightarrow> nat list \<Rightarrow> 'a list \<Rightarrow> 'a list" where
  "bcast (d # ds) (s # ss) xs =
     concat (map (\<lambda>i. bcast ds ss
                         (take (prod_list ss) (drop ((if s = 1 then 0 else i) * prod_list ss) xs)))
                 [0..<d])"
| "bcast [] ss xs = xs"
| "bcast (d # ds) [] xs = xs"

definition broadcast_to :: "nat list \<Rightarrow> 'a ndarray \<Rightarrow> solve_exn + 'a list" where
  "broadcast_to dst src =
     (let s = strip_ones (length dst) (shape src) in
      if length dst < length s then Inl (BroadcastError s dst)
      else
        let padded = replicate (length dst - length s) 1 @ s in
        if list_all2 (\<lambda>d x. x = d \<or> x = 1) dst padded then Inr (bcast dst padded (elems src))
        else Inl (BroadcastError s dst))"

text \<open>
  \<^verbatim>\<open>T_matrix\<close> is created by \<^verbatim>\<open>np.identity(4, dtype=np.float64)\<close> and is two-dimensional
  throughout: it is kept as its list of rows, with its element type.
\<close>

record 'a matrix =
  rows :: "'a list list"
  cell_dtype :: dtype

definition np_identity :: "nat \<Rightarrow> dtype \<Rightarrow> ('a::{zero,one}) matrix" where
  "np_identity n dt =
     \<lparr>rows = map (\<lambda>i. map (\<lambda>j. if i = j then 1 else 0) [0..<n]) [0..<n], cell_dtype = dt\<rparr>"

definition ncols :: "'a matrix \<Rightarrow> nat" where
  "ncols t = (case rows t of [] \<Rightarrow> 0 | row # _ \<Rightarrow> length row)"

text \<open>
  \<^verbatim>\<open>t[:r, :c] = src\<close>: the slice \<^verbatim>\<open>:r\<close> selects the first \<open>min r n\<close> indices of an axis of
  length \<open>n\<close>. Rows and columns outside the slice keep their values. The elements of
  \<open>src\<close> are converted to the element type of \<open>t\<close>, which \<open>t\<close> keeps. (The arrays of
  OpenCV hold floating-point numbers of at most 64 bits or integers of at most 32 bits;
  each is a \<^verbatim>\<open>float64\<close> value, so the conversion keeps the number.)
\<close>

definition setitem_block ::
  "'a matrix \<Rightarrow> nat \<Rightarrow> nat \<Rightarrow> 'a ndarray \<Rightarrow> solve_exn + 'a matrix" where
  "setitem_block t r c src =
     (let nr = min r (length (rows t)); nc = min c (ncols t) in
      case broadcast_to [nr, nc] src of
        Inl e \<Rightarrow> Inl e
      | Inr vals \<Rightarrow>
          Inr (t\<lparr>rows :=
                 map (\<lambda>i. if i < nr then take nc (drop (i * nc) vals) @ drop nc (rows t ! i)
                          else rows t ! i)
                   [0..<length (rows t)]\<rparr>))"

text \<open>
  \<^verbatim>\<open>t[:r, c] = src\<close>: the integer index \<open>c\<close> must be inside the second axis; the slice
  has one dimension.
\<close>

definition setitem_column ::
  "'a matrix \<Rightarrow> nat \<Rightarrow> nat \<Rightarrow> 'a ndarray \<Rightarrow> solve_exn + 'a matrix" where
  "setitem_column t r c src =
     (if ncols t \<le> c then Inl (IndexOutOfBounds c 1 (ncols t))
      else
        let nr = min r (length (rows t)) in
        case broadcast_to [nr] src of
          Inl e \<Rightarrow> Inl e
        | Inr vals \<Rightarrow>
            Inr (t\<lparr>rows :=
                   map (\<lambda>i. if i < length vals \<and> i < nr then (rows t ! i)[c := vals ! i]
                            else rows t ! i)
                     [0..<length (rows t)]\<rparr>))"

text \<open>\<^verbatim>\<open>a.flatten()\<close>: the elements as an array of one dimension, of the same element type.\<close>

definition flatten :: "'a ndarray \<Rightarrow> 'a ndarray" where
  "flatten a = \<lparr>shape = [length (elems a)], elems = elems a, dtype = dtype a\<rparr>"

text \<open>
  \<^verbatim>\<open>a.tolist()\<close> turns each element into the Python scalar of its kind: an element of a
  floating-point array of any width becomes a Python float, an element of an integral
  array a Python int.
\<close>

fun py_scalar :: "dtype \<Rightarrow> 'a \<Rightarrow> 'a pyval" where
  "py_scalar (Floating w) x = PFloat x"
| "py_scalar (Integral w) x = PInt x"

text \<open>
  \<^verbatim>\<open>a.tolist()\<close>: nested Python lists following the shape. (The second equation is not
  reached by a well-formed array, which has one element when its shape is empty.)
\<close>

fun nested_list :: "dtype \<Rightarrow> nat list \<Rightarrow> 'a list \<Rightarrow> 'a pyval" where
  "nested_list dt [] (x # xs) = py_scalar dt x"
| "nested_list dt [] [] = PNone"
| "nested_list dt (n # sh) xs =
     PList (map (\<lambda>i. nested_list dt sh (take (prod_list sh) (drop (i * prod_list sh) xs)))
              [0..<n])"

definition tolist :: "'a ndarray \<Rightarrow> 'a pyval" where
  "tolist a = nested_list (dtype a) (shape a) (elems a)"

definition matrix_tolist :: "'a matrix \<Rightarrow> 'a pyval" where
  "matrix_tolist t = PList (map (\<lambda>row. PList (map (py_scalar (cell_dtype t)) row)) (rows t))"

text \<open>
  The two OpenCV functions are parameters. \<^verbatim>\<open>cv2.solvePnP(object_points, image_points, K,
  dist, flags=cv2.SOLVEPNP_ITERATIVE)\<close> returns \<^verbatim>\<open>(success, rvec, tvec)\<close> or raises;
  \<^verbatim>\<open>cv2.Rodrigues(rvec)\<close> returns the rotation matrix (and a Jacobian the program drops)
  or raises.
\<close>

type_synonym 'a solvePnP =
  "'a ndarray \<Rightarrow> 'a ndarray \<Rightarrow> 'a ndarray \<Rightarrow> 'a ndarray \<Rightarrow> solve_exn + (bool \<times> 'a ndarray \<times> 'a ndarray)"

type_synonym 'a Rodrigues = "'a ndarray \<Rightarrow> solve_exn + 'a ndarray"

definition calculate_extrinsics ::
  "('a::{zero,one}) solvePnP \<Rightarrow> 'a Rodrigues \<Rightarrow> 'a camera_data \<Rightarrow> solve_exn + 'a pyval" where
  "calculate_extrinsics solvePnP Rodrigues camera_data =
     (case solvePnP (points_3d camera_data) (points_2d camera_data) (K camera_data)
             (dist camera_data) of
        Inl e \<Rightarrow> Inl e
      | Inr (success, rvec, tvec) \<Rightarrow>
          if \<not> success then Inl (RuntimeError ''cv2.solvePnP failed to converge.'')
          else
            (case Rodrigues rvec of
               Inl e \<Rightarrow> Inl e
             | Inr R_matrix \<Rightarrow>
                 (case setitem_block (np_identity 4 float64) 3 3 R_matrix of
                    Inl e \<Rightarrow> Inl e
                  | Inr T1 \<Rightarrow>
                      (case setitem_column T1 3 3 (flatten tvec) of
                         Inl e \<Rightarrow> Inl e
                       | Inr T_matrix \<Rightarrow>
                           Inr (PDict
                             [(''rotation_matrix_R'', tolist R_matrix),
                              (''translation_vector_t'', tolist (flatten tvec)),
                              (''T_homogeneous_matrix_4x4'', matrix_tolist T_matrix),
                              (''R_Rodrigues_vector'', tolist (flatten rvec))])))))"

section \<open>The batch: \<^verbatim>\<open>main\<close>\<close>

definition INTRINSICS_FILE :: string where
  "INTRINSICS_FILE = ''intrinsics.json''"

definition OBSERVATIONS_FILE :: string where
  "OBSERVATIONS_FILE = ''observations.json''"

definition OUTPUT_FILE :: string where
  "OUTPUT_FILE = ''extrinsics_result.json''"

text \<open>
  The loop of lines 128 to 136: \<open>cameras\<close> is \<^verbatim>\<open>results["cameras"]\<close>, \<open>out\<close> the lines
  printed so far. Every exception of \<^verbatim>\<open>calculate_extrinsics\<close> is caught.
\<close>

fun process_cameras ::
  "('a::{zero,one}) solvePnP \<Rightarrow> 'a Rodrigues \<Rightarrow> (string \<times> 'a camera_data) list \<Rightarrow>
   (string \<times> 'a pyval) list \<Rightarrow> string list \<Rightarrow> (string \<times> 'a pyval) list \<times> string list" where
  "process_cameras solvePnP Rodrigues [] cameras out = (cameras, out)"
| "process_cameras solvePnP Rodrigues ((cam_id, cam_data) # rest) cameras out =
     (case calculate_extrinsics solvePnP Rodrigues cam_data of
        Inr extrinsics \<Rightarrow>
          process_cameras solvePnP Rodrigues rest
            (dict_set cameras cam_id extrinsics)
            (out @ [CHR 0x0A # ''Processing '' @ cam_id @ ''...'',
                    ''SUCCESS: Extrinsics calculated for '' @ cam_id @ ''.''])
      | Inl e \<Rightarrow>
          process_cameras solvePnP Rodrigues rest
            (dict_set cameras cam_id (PDict [(''error'', PStr (py_str e))]))
            (out @ [CHR 0x0A # ''Processing '' @ cam_id @ ''...'',
                    ''FAILURE: Could not calculate extrinsics for '' @ cam_id
                      @ ''. Error: '' @ py_str e]))"

text \<open>
  \<^verbatim>\<open>main\<close>. The result is the printed lines and how the run ends: an exception of the
  loader that nothing catches, a return without output (\<open>None\<close>), or the path and the
  document passed to \<^verbatim>\<open>json.dump\<close>.
\<close>

definition main ::
  "nat \<Rightarrow> ('a pyval \<Rightarrow> load_exn + 'a) \<Rightarrow> ('a::{zero,one}) solvePnP \<Rightarrow> 'a Rodrigues \<Rightarrow>
   (string \<Rightarrow> 'a json_file) \<Rightarrow> string list \<times> (load_exn + (string \<times> 'a pyval) option)" where
  "main maxdims as_float32 solvePnP Rodrigues fs =
     (case load_calibration_data maxdims as_float32 fs INTRINSICS_FILE OBSERVATIONS_FILE of
        (out, Inl e) \<Rightarrow> (out, Inl e)
      | (out, Inr all_camera_data) \<Rightarrow>
          if all_camera_data = [] then (out @ [''No valid camera data loaded. Exiting.''], Inr None)
          else
            (case process_cameras solvePnP Rodrigues all_camera_data [] out of
               (cameras, out') \<Rightarrow>
                 (out' @ [CHR 0x0A # ''--- Processing Complete ---'',
                          ''Results saved to: '' @ OUTPUT_FILE],
                  Inr (Some (OUTPUT_FILE, PDict [(''cameras'', PDict cameras)])))))"

section \<open>Reading documents and runs\<close>

text \<open>
  The properties below speak about the documents in their own terms: a field of a JSON
  object, the number of points of a field, the cameras object of the observations
  document. These definitions follow the words of the specification, not the loader.
\<close>

text \<open>A field of a JSON object; anything that is not an object has no fields.\<close>

definition lookup :: "'a pyval \<Rightarrow> string \<Rightarrow> 'a pyval option" where
  "lookup v k = (case v of PDict d \<Rightarrow> map_of d k | _ \<Rightarrow> None)"

text \<open>The number of points of a \<^verbatim>\<open>points_3d\<close> or \<^verbatim>\<open>points_2d\<close> field: the length of the list.\<close>

definition point_count :: "'a pyval \<Rightarrow> nat option" where
  "point_count p = (case p of PList xs \<Rightarrow> Some (length xs) | _ \<Rightarrow> None)"

text \<open>The entries of the \<^verbatim>\<open>cameras\<close> object of the observations document, in key order.\<close>

definition obs_cameras_of :: "'a pyval \<Rightarrow> (string \<times> 'a pyval) list" where
  "obs_cameras_of observations_data =
     (case lookup observations_data ''cameras'' of Some (PDict cams) \<Rightarrow> cams | _ \<Rightarrow> [])"

definition equal_point_counts :: "'a pyval \<Rightarrow> bool" where
  "equal_point_counts obs_entry =
     (case (lookup obs_entry ''points_3d'', lookup obs_entry ''points_2d'') of
        (Some p3, Some p2) \<Rightarrow>
          (case (point_count p3, point_count p2) of (Some n3, Some n2) \<Rightarrow> n3 = n2 | _ \<Rightarrow> False)
      | _ \<Rightarrow> False)"

text \<open>
  The camera id is a key of the intrinsics document and a key of the observations
  document's \<^verbatim>\<open>cameras\<close> object, with as many 3D points as 2D points.
\<close>

definition present_in_both_with_equal_counts :: "'a pyval \<Rightarrow> 'a pyval \<Rightarrow> string \<Rightarrow> bool" where
  "present_in_both_with_equal_counts intrinsics_data observations_data cam_id =
     (case (lookup intrinsics_data cam_id, map_of (obs_cameras_of observations_data) cam_id) of
        (Some int_entry, Some obs_entry) \<Rightarrow> equal_point_counts obs_entry
      | _ \<Rightarrow> False)"

text \<open>
  A file that is absent or does not hold valid JSON. A file whose bytes are not text in
  the encoding of \<^verbatim>\<open>open\<close> holds no JSON document either; reading it raises
  \<^verbatim>\<open>UnicodeDecodeError\<close>, not \<^verbatim>\<open>JSONDecodeError\<close>.
\<close>

definition absent_or_invalid_json :: "'a json_file \<Rightarrow> bool" where
  "absent_or_invalid_json f =
     (case f of
        Missing \<Rightarrow> True
      | Invalid msg \<Rightarrow> True
      | Raises e \<Rightarrow> e = UnicodeDecodeError
      | Parsed document \<Rightarrow> False)"

text \<open>
  The narrower condition: \<^verbatim>\<open>open\<close> does not find the file, or \<^verbatim>\<open>json.load\<close> reads its
  text and rejects it with \<^verbatim>\<open>JSONDecodeError\<close>.
\<close>

definition absent_or_rejected :: "'a json_file \<Rightarrow> bool" where
  "absent_or_rejected f =
     (case f of Missing \<Rightarrow> True | Invalid msg \<Rightarrow> True | _ \<Rightarrow> False)"

definition parses :: "'a json_file \<Rightarrow> bool" where
  "parses f = (case f of Parsed document \<Rightarrow> True | _ \<Rightarrow> False)"

text \<open>A JSON object, as opposed to a list, a string, a number, a boolean or \<^verbatim>\<open>null\<close>.\<close>

definition is_object :: "'a pyval \<Rightarrow> bool" where
  "is_object v = (case v of PDict d \<Rightarrow> True | _ \<Rightarrow> False)"



text \<open>
  The \<^verbatim>\<open>cameras\<close> object of the document a run writes; empty when the run writes
  nothing.
\<close>

definition written_cameras ::
  "string list \<times> (load_exn + (string \<times> 'a pyval) option) \<Rightarrow> (string \<times> 'a pyval) list" where
  "written_cameras run =
     (case snd run of
        Inr (Some (path, document)) \<Rightarrow>
          (case lookup document ''cameras'' of Some (PDict cameras) \<Rightarrow> cameras | _ \<Rightarrow> [])
      | _ \<Rightarrow> [])"

text \<open>
  \<^verbatim>\<open>main\<close> prints a newline and \<^verbatim>\<open>Processing <id>...\<close> right before it calls
  \<^verbatim>\<open>calculate_extrinsics\<close> for that camera, and no other printed line starts with these
  twelve characters. The ids of these lines, in the order printed, are the cameras in the
  order they are solved.
\<close>

definition solved_ids :: "string list \<Rightarrow> string list" where
  "solved_ids out =
     map (\<lambda>line. take (length line - 15) (drop 12 line))
       (filter (\<lambda>line. take 12 line = CHR 0x0A # ''Processing '') out)"

text \<open>
  What one pass of the loader's loop body decides for a camera: an exception, a skip
  (\<open>None\<close>: no intrinsics, or the entry is deleted again for its point counts), or the
  entry that stays in \<^verbatim>\<open>structured_data\<close>.
\<close>

definition load_camera ::
  "nat \<Rightarrow> ('a pyval \<Rightarrow> load_exn + 'a) \<Rightarrow> 'a pyval \<Rightarrow> string \<Rightarrow> 'a pyval \<Rightarrow>
   load_exn + 'a camera_data option" where
  "load_camera maxdims as_float32 intrinsics_data cam_id obs_data =
     (case py_contains intrinsics_data cam_id of
        Inl e \<Rightarrow> Inl e
      | Inr False \<Rightarrow> Inr None
      | Inr True \<Rightarrow>
          (case py_getitem intrinsics_data cam_id of
             Inl e \<Rightarrow> Inl e
           | Inr int_data \<Rightarrow>
               (case build_entry maxdims as_float32 int_data obs_data of
                  Inl e \<Rightarrow> Inl e
                | Inr entry \<Rightarrow>
                    (case shape0 (points_3d entry) of
                       Inl e \<Rightarrow> Inl e
                     | Inr n3 \<Rightarrow>
                         (case shape0 (points_2d entry) of
                            Inl e \<Rightarrow> Inl e
                          | Inr n2 \<Rightarrow> if n3 \<noteq> n2 then Inr None else Inr (Some entry))))))"

definition kept_cameras ::
  "nat \<Rightarrow> ('a pyval \<Rightarrow> load_exn + 'a) \<Rightarrow> 'a pyval \<Rightarrow> (string \<times> 'a pyval) list \<Rightarrow>
   (string \<times> 'a camera_data) list" where
  "kept_cameras maxdims as_float32 intrinsics_data items =
     concat (map (\<lambda>(cam_id, obs_data).
                    case load_camera maxdims as_float32 intrinsics_data cam_id obs_data of
                      Inr (Some entry) \<Rightarrow> [(cam_id, entry)]
                    | _ \<Rightarrow> [])
                 items)"

section \<open>Example inputs\<close>

text \<open>
  Concrete documents and stand-ins for the libraries, over integer numbers, on which the
  theorems are instantiated. The stand-in for \<^verbatim>\<open>cv2.solvePnP\<close> raises on fewer than four
  points, reports failure when the first image coordinate is 0, and otherwise succeeds
  with \<^verbatim>\<open>float64\<close> vectors of shape \<open>(3, 1)\<close>; the stand-in for \<^verbatim>\<open>cv2.Rodrigues\<close> returns
  a matrix of shape \<open>(3, 3)\<close> with the element type of its argument.
\<close>

definition ex_float32 :: "int pyval \<Rightarrow> load_exn + int" where
  "ex_float32 v =
     (case v of
        PInt n \<Rightarrow> Inr n
      | PFloat x \<Rightarrow> Inr x
      | PBool b \<Rightarrow> Inr (if b then 1 else 0)
      | _ \<Rightarrow> Inl TypeError)"

definition ex_solvePnP :: "int solvePnP" where
  "ex_solvePnP object_points image_points camera_matrix dist_coeffs =
     (if length (elems object_points) < 12 then Inl (LibraryError ''too few points'')
      else if take 1 (elems image_points) = [0] then
        Inr (False, \<lparr>shape = [3, 1], elems = [0, 0, 0], dtype = float64\<rparr>,
                    \<lparr>shape = [3, 1], elems = [0, 0, 0], dtype = float64\<rparr>)
      else
        Inr (True, \<lparr>shape = [3, 1], elems = take 3 (elems object_points), dtype = float64\<rparr>,
                   \<lparr>shape = [3, 1], elems = take 3 (elems image_points), dtype = float64\<rparr>))"

definition ex_Rodrigues :: "int Rodrigues" where
  "ex_Rodrigues rvec =
     Inr \<lparr>shape = [3, 3], elems = map (\<lambda>i. sum_list (elems rvec) + int i) [0..<9],
          dtype = dtype rvec\<rparr>"

definition int_rows :: "int list list \<Rightarrow> int pyval" where
  "int_rows xss = PList (map (\<lambda>r. PList (map PInt r)) xss)"

definition float_rows :: "int list list \<Rightarrow> int pyval" where
  "float_rows xss = PList (map (\<lambda>r. PList (map PFloat r)) xss)"

definition ex_intrinsics_entry :: "int pyval" where
  "ex_intrinsics_entry =
     PDict [(''K'', float_rows [[800, 0, 320], [0, 800, 240], [0, 0, 1]]),
            (''distortion'', PList (map PInt [0, 0, 0, 0, 0]))]"

definition ex_observation :: "int pyval" where
  "ex_observation =
     PDict [(''points_3d'', int_rows [[1, 0, 0], [1, 0, 0], [0, 1, 0], [0, 0, 1]]),
            (''points_2d'', float_rows [[320, 240], [1120, 240], [320, - 560], [320, 240]])]"

text \<open>One point only: the stand-in solver raises.\<close>

definition ex_observation_short :: "int pyval" where
  "ex_observation_short =
     PDict [(''points_3d'', int_rows [[1, 0, 0]]), (''points_2d'', float_rows [[320, 240]])]"

text \<open>First image coordinate 0: the stand-in solver reports failure.\<close>

definition ex_observation_flat :: "int pyval" where
  "ex_observation_flat =
     PDict [(''points_3d'', int_rows [[1, 0, 0], [1, 0, 0], [0, 1, 0], [0, 0, 1]]),
            (''points_2d'', float_rows [[0, 0], [1, 1], [2, 2], [3, 3]])]"

text \<open>Four 3D points and three 2D points.\<close>

definition ex_observation_mismatch :: "int pyval" where
  "ex_observation_mismatch =
     PDict [(''points_3d'', int_rows [[1, 0, 0], [1, 0, 0], [0, 1, 0], [0, 0, 1]]),
            (''points_2d'', float_rows [[320, 240], [1120, 240], [320, - 560]])]"

text \<open>The file system holding the two documents under the names \<^verbatim>\<open>main\<close> uses.\<close>

definition ex_fs :: "int json_file \<Rightarrow> int json_file \<Rightarrow> string \<Rightarrow> int json_file" where
  "ex_fs intrinsics_file observations_file path =
     (if path = INTRINSICS_FILE then intrinsics_file
      else if path = OBSERVATIONS_FILE then observations_file
      else Missing)"

text \<open>Three cameras: two that solve and one (\<^verbatim>\<open>cam3\<close>) on which the solver raises.\<close>

definition ex_intrinsics_three :: "int pyval" where
  "ex_intrinsics_three =
     PDict [(''cam1'', ex_intrinsics_entry), (''cam2'', ex_intrinsics_entry),
            (''cam3'', ex_intrinsics_entry)]"

definition ex_observations_three :: "int pyval" where
  "ex_observations_three =
     PDict [(''cameras'',
       PDict [(''cam1'', ex_observation), (''cam2'', ex_observation),
              (''cam3'', ex_observation_short)])]"

text \<open>
  Four cameras: \<^verbatim>\<open>cam1\<close> solves, \<^verbatim>\<open>cam2\<close> has no intrinsics, \<^verbatim>\<open>cam3\<close> has mismatched point
  counts, and on \<^verbatim>\<open>cam4\<close> the solver reports failure.
\<close>

definition ex_intrinsics_mixed :: "int pyval" where
  "ex_intrinsics_mixed =
     PDict [(''cam4'', ex_intrinsics_entry), (''cam3'', ex_intrinsics_entry),
            (''cam1'', ex_intrinsics_entry)]"

definition ex_observations_mixed :: "int pyval" where
  "ex_observations_mixed =
     PDict [(''cameras'',
       PDict [(''cam1'', ex_observation), (''cam2'', ex_observation),
              (''cam3'', ex_observation_mismatch), (''cam4'', ex_observation_flat)])]"

text \<open>Two cameras, the second with an intrinsics entry that has no \<^verbatim>\<open>K\<close> field.\<close>

definition ex_entry_no_K :: "int pyval" where
  "ex_entry_no_K = PDict [(''distortion'', PList (map PInt [0, 0, 0, 0, 0]))]"

definition ex_intrinsics_no_K :: "int pyval" where
  "ex_intrinsics_no_K = PDict [(''cam1'', ex_intrinsics_entry), (''cam2'', ex_entry_no_K)]"

text \<open>No camera qualifies: \<^verbatim>\<open>cam2\<close> has no intrinsics, \<^verbatim>\<open>cam3\<close> mismatched point counts.\<close>

definition ex_observations_none :: "int pyval" where
  "ex_observations_none =
     PDict [(''cameras'',
       PDict [(''cam2'', ex_observation), (''cam3'', ex_observation_mismatch)])]"

definition ex_observations_two :: "int pyval" where
  "ex_observations_two =
     PDict [(''cameras'', PDict [(''cam1'', ex_observation), (''cam2'', ex_observation)])]"

text \<open>
  The entries the loader builds for \<^verbatim>\<open>ex_observation\<close>, \<^verbatim>\<open>ex_observation_flat\<close> and
  \<^verbatim>\<open>ex_observation_short\<close>.
\<close>

definition ex_camera :: "int camera_data" where
  "ex_camera =
     \<lparr>K = \<lparr>shape = [3, 3], elems = [800, 0, 320, 0, 800, 240, 0, 0, 1], dtype = float32\<rparr>,
      dist = \<lparr>shape = [5], elems = [0, 0, 0, 0, 0], dtype = float32\<rparr>,
      points_3d = \<lparr>shape = [4, 3], elems = [1, 0, 0, 1, 0, 0, 0, 1, 0, 0, 0, 1],
                   dtype = float32\<rparr>,
      points_2d = \<lparr>shape = [4, 2], elems = [320, 240, 1120, 240, 320, - 560, 320, 240],
                   dtype = float32\<rparr>\<rparr>"

definition ex_camera_flat :: "int camera_data" where
  "ex_camera_flat =
     ex_camera\<lparr>points_2d := \<lparr>shape = [4, 2], elems = [0, 0, 1, 1, 2, 2, 3, 3],
                               dtype = float32\<rparr>\<rparr>"

definition ex_camera_short :: "int camera_data" where
  "ex_camera_short =
     ex_camera\<lparr>points_3d := \<lparr>shape = [1, 3], elems = [1, 0, 0], dtype = float32\<rparr>,
               points_2d := \<lparr>shape = [1, 2], elems = [320, 240], dtype = float32\<rparr>\<rparr>"

text \<open>The pose the stand-in solver gives for \<^verbatim>\<open>ex_camera\<close>.\<close>

definition ex_pose :: "int pyval" where
  "ex_pose =
     PDict
       [(''rotation_matrix_R'', float_rows [[1, 2, 3], [4, 5, 6], [7, 8, 9]]),
        (''translation_vector_t'', PList (map PFloat [320, 240, 1120])),
        (''T_homogeneous_matrix_4x4'',
           float_rows [[1, 2, 3, 320], [4, 5, 6, 240], [7, 8, 9, 1120], [0, 0, 0, 1]]),
        (''R_Rodrigues_vector'', PList (map PFloat [1, 0, 0]))]"

section \<open>Lemmas about the loader and the batch loop\<close>

lemma dict_set_fresh: "k \<notin> fst ` set d \<Longrightarrow> dict_set d k v = d @ [(k, v)]"
  by (induction d) auto

lemma dict_del_fresh: "k \<notin> fst ` set d \<Longrightarrow> dict_del (d @ [(k, v)]) k = d"
  by (induction d) (auto simp: dict_del_def)

lemma dict_set_keys:
  "map fst (dict_set d k v) = (if k \<in> fst ` set d then map fst d else map fst d @ [k])"
  by (induction d) force+

lemma dict_set_distinct: "distinct (map fst d) \<Longrightarrow> distinct (map fst (dict_set d k v))"
  by (simp add: dict_set_keys)

lemma dict_del_distinct: "distinct (map fst d) \<Longrightarrow> distinct (map fst (dict_del d k))"
  by (simp add: dict_del_def distinct_map_filter)

lemma kept_cameras_Cons:
  "kept_cameras mx cvt intr ((k, ob) # items) =
     (case load_camera mx cvt intr k ob of Inr (Some entry) \<Rightarrow> [(k, entry)] | _ \<Rightarrow> [])
       @ kept_cameras mx cvt intr items"
  by (simp add: kept_cameras_def)

lemma kept_cameras_Nil: "kept_cameras mx cvt intr [] = []"
  by (simp add: kept_cameras_def)

lemma kept_cameras_keys_subset:
  "k \<in> fst ` set (kept_cameras mx cvt intr items) \<Longrightarrow> k \<in> fst ` set items"
proof (induction items)
  case Nil
  then show ?case by (simp add: kept_cameras_Nil)
next
  case (Cons item items)
  obtain k' ob' where item: "item = (k', ob')" by (cases item)
  from Cons show ?case
    by (auto simp: item kept_cameras_Cons split: sum.splits option.splits)
qed

lemma load_loop_result:
  assumes "distinct (map fst items)" "fst ` set items \<inter> fst ` set sd = {}"
    and "snd (load_loop mx cvt intr items sd out) = Inr res"
  shows "res = sd @ kept_cameras mx cvt intr items
     \<and> (\<forall>(k, ob) \<in> set items. \<forall>e. load_camera mx cvt intr k ob \<noteq> Inl e)"
  using assms
proof (induction items arbitrary: sd out)
  case Nil
  then show ?case by (simp add: kept_cameras_def)
next
  case (Cons item items)
  obtain k ob where item: "item = (k, ob)" by (cases item)
  have fresh: "k \<notin> fst ` set sd" using Cons.prems(2) item by auto
  have dist: "distinct (map fst items)" and knot: "k \<notin> fst ` set items"
    using Cons.prems(1) item by auto
  have disj: "fst ` set items \<inter> fst ` set sd = {}" using Cons.prems(2) by auto
  show ?case
  proof (cases "load_camera mx cvt intr k ob")
    case (Inl e)
    then have "\<exists>e'. snd (load_loop mx cvt intr (item # items) sd out) = Inl e'"
      by (auto simp: item load_camera_def split: sum.splits bool.splits if_splits)
    with Cons.prems(3) show ?thesis by auto
  next
    case (Inr r)
    show ?thesis
    proof (cases r)
      case None
      with Inr have "load_loop mx cvt intr (item # items) sd out = 
         load_loop mx cvt intr items sd (if py_contains intr k = Inr False then 
              out @ [''Warning: Intrinsics for '' @ k @ '' not found. Skipping.'']
            else out @ [''Error: Mismatch in 3D/2D point count for '' @ k @ ''. Skipping.''])"
        using fresh
        by (auto simp: item load_camera_def dict_set_fresh dict_del_fresh split: sum.splits bool.splits if_splits)
      with Cons.prems(3) Cons.IH[OF dist disj] Inr None show ?thesis
        by (auto simp: item kept_cameras_Cons)
    next
      case (Some entry)
      with Inr have eq: "load_loop mx cvt intr (item # items) sd out = 
         load_loop mx cvt intr items (sd @ [(k, entry)]) out"
        using fresh
        by (auto simp: item load_camera_def dict_set_fresh split: sum.splits bool.splits if_splits)
      have disj': "fst ` set items \<inter> fst ` set (sd @ [(k, entry)]) = {}"
        using disj knot by auto
      from Cons.prems(3) Cons.IH[OF dist disj'] Inr Some eq show ?thesis
        by (auto simp: item kept_cameras_Cons)
    qed
  qed
qed

lemma load_loop_raises:
  assumes "(k, ob) \<in> set items" "load_camera mx cvt intr k ob = Inl e"
  shows "\<exists>e'. snd (load_loop mx cvt intr items sd out) = Inl e'"
  using assms
proof (induction items arbitrary: sd out)
  case Nil
  then show ?case by simp
next
  case (Cons item items)
  obtain k' ob' where item: "item = (k', ob')" by (cases item)
  show ?case
  proof (cases "item = (k, ob)")
    case True
    with Cons.prems(2) show ?thesis
      by (auto simp: load_camera_def split: sum.splits bool.splits if_splits)
  next
    case False
    with Cons.prems have "(k, ob) \<in> set items" by auto
    from Cons.IH[OF this Cons.prems(2)] show ?thesis
      by (auto simp: item split: sum.splits bool.splits)
  qed
qed

lemma load_loop_distinct:
  assumes "distinct (map fst sd)" "snd (load_loop mx cvt intr items sd out) = Inr res"
  shows "distinct (map fst res)"
  using assms
proof (induction items arbitrary: sd out)
  case Nil
  then show ?case by simp
next
  case (Cons item items)
  obtain k ob where item: "item = (k, ob)" by (cases item)
  from Cons.prems show ?case
    by (auto simp: item dict_set_distinct dict_del_distinct
        split: sum.splits bool.splits if_splits
        dest!: Cons.IH[rotated])
qed

lemma discover_shape_PList:
  "discover_shape (PList xs) = Some sh \<Longrightarrow> \<exists>rest. sh = length xs # rest"
  by (auto split: list.splits option.splits if_splits)

lemma np_array_shape0:
  assumes "np_array mx dt cvt x = Inr a"
  shows "shape0 a = (case point_count x of Some n \<Rightarrow> Inr n | None \<Rightarrow> Inl IndexError)"
proof -
  from assms obtain sh xs where sh: "discover_shape x = Some sh"
    and a: "a = \<lparr>shape = sh, elems = xs, dtype = dt\<rparr>"
    by (auto simp: np_array_def split: option.splits if_splits sum.splits)
  show ?thesis
  proof (cases x)
    case (PList ys)
    with sh obtain rest where "sh = length ys # rest" using discover_shape_PList by blast
    with PList a show ?thesis by (simp add: shape0_def point_count_def)
  qed (use sh a in \<open>auto simp: shape0_def point_count_def\<close>)
qed

lemma py_getitem_lookup:
  "py_getitem v k = (case lookup v k of Some x \<Rightarrow> Inr x
     | None \<Rightarrow> (case v of PDict d \<Rightarrow> Inl (KeyError k) | _ \<Rightarrow> Inl TypeError))"
  by (cases v) (auto simp: lookup_def split: option.splits)

lemma load_camera_kept_iff:
  assumes "load_camera mx cvt intr k ob = Inr r"
  shows "(r \<noteq> None) = (lookup intr k \<noteq> None \<and> equal_point_counts ob)"
proof (cases "py_contains intr k = Inr True")
  case False
  with assms have r: "r = None" and c: "py_contains intr k = Inr False"
    by (auto simp: load_camera_def split: sum.splits bool.splits)
  from c assms have "lookup intr k = None"
    by (cases intr) (auto simp: lookup_def map_of_eq_None_iff)
  with r show ?thesis by simp
next
  case True
  with assms obtain int_data entry n3 n2 where
    g: "py_getitem intr k = Inr int_data"
    and b: "build_entry mx cvt int_data ob = Inr entry"
    and n3: "shape0 (points_3d entry) = Inr n3" and n2: "shape0 (points_2d entry) = Inr n2"
    and r: "r = (if n3 \<noteq> n2 then None else Some entry)"
    by (auto simp: load_camera_def split: sum.splits bool.splits if_splits)
  from g have l: "lookup intr k \<noteq> None"
    by (auto simp: py_getitem_lookup split: option.splits pyval.splits)
  from b obtain p3 p2 where
    p3: "py_getitem ob ''points_3d'' = Inr p3" "np_array mx float32 cvt p3 = Inr (points_3d entry)"
    and p2: "py_getitem ob ''points_2d'' = Inr p2" "np_array mx float32 cvt p2 = Inr (points_2d entry)"
    by (auto simp: build_entry_def split: sum.splits)
  from p3(1) p2(1) have lk: "lookup ob ''points_3d'' = Some p3" "lookup ob ''points_2d'' = Some p2"
    by (auto simp: py_getitem_lookup split: option.splits pyval.splits)
  from np_array_shape0[OF p3(2)] n3 have c3: "point_count p3 = Some n3"
    by (auto split: option.splits)
  from np_array_shape0[OF p2(2)] n2 have c2: "point_count p2 = Some n2"
    by (auto split: option.splits)
  show ?thesis using l lk c3 c2 r by (simp add: equal_point_counts_def)
qed

lemma kept_cameras_keys:
  assumes "distinct (map fst items)"
    and "\<forall>(k, ob) \<in> set items. \<forall>e. load_camera mx cvt intr k ob \<noteq> Inl e"
  shows "map fst (kept_cameras mx cvt intr items)
     = filter (\<lambda>k. case (lookup intr k, map_of items k) of
                     (Some i, Some ob) \<Rightarrow> equal_point_counts ob | _ \<Rightarrow> False) (map fst items)"
  using assms
proof (induction items)
  case Nil
  then show ?case by (simp add: kept_cameras_Nil)
next
  case (Cons item items)
  obtain k ob where item: "item = (k, ob)" by (cases item)
  from Cons.prems item have dist: "distinct (map fst items)" and knot: "k \<notin> fst ` set items"
    and nr: "\<forall>(k, ob) \<in> set items. \<forall>e. load_camera mx cvt intr k ob \<noteq> Inl e"
    by auto
  from Cons.prems(2) item obtain r where r: "load_camera mx cvt intr k ob = Inr r"
    by (cases "load_camera mx cvt intr k ob") auto
  have tail: "filter (\<lambda>k'. case (lookup intr k', map_of ((k, ob) # items) k') of
                     (Some i, Some ob) \<Rightarrow> equal_point_counts ob | _ \<Rightarrow> False) (map fst items)
     = filter (\<lambda>k'. case (lookup intr k', map_of items k') of
                     (Some i, Some ob) \<Rightarrow> equal_point_counts ob | _ \<Rightarrow> False) (map fst items)"
    using knot by (intro filter_cong) auto
  from load_camera_kept_iff[OF r] r Cons.IH[OF dist nr] tail show ?case
    by (cases r) (auto simp: item kept_cameras_Cons split: option.splits)
qed

lemma load_calibration_data_Parsed:
  assumes "fs ip = Parsed intr" "fs op = Parsed obs"
    and "snd (load_calibration_data mx cvt fs ip op) = Inr cams"
  shows "load_calibration_data mx cvt fs ip op
     = load_loop mx cvt intr (obs_cameras_of obs) []
         [''Loading data from '' @ ip @ '' and '' @ op @ ''...'']"
  using assms
  by (cases obs)
     (auto simp: load_calibration_data_def obs_cameras_of_def lookup_def Let_def
           split: sum.splits option.splits pyval.splits)

lemma loaded_cameras:
  assumes "fs ip = Parsed intr" "fs op = Parsed obs"
    and "distinct (map fst (obs_cameras_of obs))"
    and "snd (load_calibration_data mx cvt fs ip op) = Inr cams"
  shows "map fst cams = filter (present_in_both_with_equal_counts intr obs) (map fst (obs_cameras_of obs))"
    and "cams = kept_cameras mx cvt intr (obs_cameras_of obs)"
proof -
  from load_calibration_data_Parsed[OF assms(1,2,4)] assms(4)
  have "snd (load_loop mx cvt intr (obs_cameras_of obs) []
         [''Loading data from '' @ ip @ '' and '' @ op @ ''...'']) = Inr cams" by simp
  from load_loop_result[OF assms(3) _ this]
  have c: "cams = kept_cameras mx cvt intr (obs_cameras_of obs)"
    and nr: "\<forall>(k, ob) \<in> set (obs_cameras_of obs). \<forall>e. load_camera mx cvt intr k ob \<noteq> Inl e"
    by auto
  show "cams = kept_cameras mx cvt intr (obs_cameras_of obs)" by (rule c)
  show "map fst cams = filter (present_in_both_with_equal_counts intr obs) (map fst (obs_cameras_of obs))"
    unfolding c kept_cameras_keys[OF assms(3) nr]
    by (intro filter_cong) (auto simp: present_in_both_with_equal_counts_def)
qed

lemma process_cameras_result:
  assumes "distinct (map fst cams)" "fst ` set cams \<inter> fst ` set res = {}"
  shows "fst (process_cameras pnp rod cams res out) =
           res @ map (\<lambda>(cam_id, cam_data).
                        (cam_id, case calculate_extrinsics pnp rod cam_data of
                                   Inr extrinsics \<Rightarrow> extrinsics
                                 | Inl e \<Rightarrow> PDict [(''error'', PStr (py_str e))])) cams"
    and "solved_ids (snd (process_cameras pnp rod cams res out)) = solved_ids out @ map fst cams"
  using assms
proof (induction cams arbitrary: res out)
  case Nil
  { case 1 then show ?case by simp }
  { case 2 then show ?case by simp }
next
  case (Cons cam cams)
  obtain k cd where cam: "cam = (k, cd)" by (cases cam)
  { case 1
    then have fresh: "k \<notin> fst ` set res" and dist: "distinct (map fst cams)"
      and disj: "\<And>v. fst ` set cams \<inter> fst ` set (res @ [(k, v)]) = {}"
      using cam by auto
    show ?case
      using Cons.IH(1)[OF dist disj]
      by (auto simp: cam dict_set_fresh[OF fresh] split: sum.splits) }
  { case 2
    then have fresh: "k \<notin> fst ` set res" and dist: "distinct (map fst cams)"
      and disj: "\<And>v. fst ` set cams \<inter> fst ` set (res @ [(k, v)]) = {}"
      using cam by auto
    show ?case
      using Cons.IH(2)[OF dist disj]
      by (auto simp: cam dict_set_fresh[OF fresh] solved_ids_def split: sum.splits) }
qed

lemma load_loop_prints_no_processing:
  "solved_ids (fst (load_loop mx cvt intr items sd out)) = solved_ids out"
proof (induction items arbitrary: sd out)
  case Nil
  then show ?case by simp
next
  case (Cons item items)
  obtain k ob where item: "item = (k, ob)" by (cases item)
  show ?case
    using Cons.IH by (auto simp: item solved_ids_def split: sum.splits bool.splits)
qed

lemma loader_prints_no_processing:
  "solved_ids (fst (load_calibration_data mx cvt fs ip op)) = []"
proof -
  let ?o = "[''Loading data from '' @ ip @ '' and '' @ op @ ''...'']"
  have o: "solved_ids ?o = []" by (simp add: solved_ids_def)
  have l: "\<And>intr items. solved_ids (fst (load_loop mx cvt intr items [] ?o)) = []"
    using load_loop_prints_no_processing[of mx cvt] o by simp
  have e: "\<And>p. solved_ids (?o @ [''ERROR: Missing file '' @ p @ ''. Aborting.'']) = []"
    "\<And>m. solved_ids (?o @ [''ERROR: Invalid JSON format in a file. '' @ m @ ''. Aborting.'']) = []"
    by (simp_all add: solved_ids_def)
  show ?thesis
    using o l e
    by (auto simp: load_calibration_data_def Let_def split: json_file.splits sum.splits)
qed

lemma loaded_keys_distinct:
  assumes "snd (load_calibration_data mx cvt fs ip op) = Inr cams"
  shows "distinct (map fst cams)"
  using assms
  by (auto simp: load_calibration_data_def Let_def split: json_file.splits sum.splits
        intro: load_loop_distinct[rotated])

lemma main_written:
  assumes "snd (load_calibration_data mx cvt fs INTRINSICS_FILE OBSERVATIONS_FILE) = Inr cams"
  shows "written_cameras (main mx cvt pnp rod fs) =
           map (\<lambda>(cam_id, cam_data).
                  (cam_id, case calculate_extrinsics pnp rod cam_data of
                             Inr extrinsics \<Rightarrow> extrinsics
                           | Inl e \<Rightarrow> PDict [(''error'', PStr (py_str e))])) cams"
    and "solved_ids (fst (main mx cvt pnp rod fs)) = map fst cams"
proof -
  obtain out where l: "load_calibration_data mx cvt fs INTRINSICS_FILE OBSERVATIONS_FILE = (out, Inr cams)"
    using assms by (cases "load_calibration_data mx cvt fs INTRINSICS_FILE OBSERVATIONS_FILE") auto
  have d: "distinct (map fst cams)" by (rule loaded_keys_distinct[OF assms])
  have o: "solved_ids out = []" using loader_prints_no_processing[of mx cvt fs INTRINSICS_FILE OBSERVATIONS_FILE] l by simp
  obtain cameras out' where p: "process_cameras pnp rod cams [] out = (cameras, out')"
    by (cases "process_cameras pnp rod cams [] out") auto
  from process_cameras_result[OF d, of "[]" pnp rod out] p
  have c: "cameras = map (\<lambda>(cam_id, cam_data).
                  (cam_id, case calculate_extrinsics pnp rod cam_data of
                             Inr extrinsics \<Rightarrow> extrinsics
                           | Inl e \<Rightarrow> PDict [(''error'', PStr (py_str e))])) cams"
    and s: "solved_ids out' = map fst cams" using o by auto
  show "written_cameras (main mx cvt pnp rod fs) =
           map (\<lambda>(cam_id, cam_data).
                  (cam_id, case calculate_extrinsics pnp rod cam_data of
                             Inr extrinsics \<Rightarrow> extrinsics
                           | Inl e \<Rightarrow> PDict [(''error'', PStr (py_str e))])) cams"
    using l p c by (auto simp: main_def written_cameras_def lookup_def)
  show "solved_ids (fst (main mx cvt pnp rod fs)) = map fst cams"
    using l p s o by (auto simp: main_def solved_ids_def)
qed

section \<open>Lemmas about the solver\<close>

lemma upt_4: "[0..<4] = [0, 1, 2, 3::nat]" by (simp add: upt_rec)
lemma upt_3: "[0..<3] = [0, 1, 2::nat]" by (simp add: upt_rec)

lemma np_identity_4:
  "np_identity 4 dt =
     \<lparr>rows = [[1, 0, 0, 0], [0, 1, 0, 0], [0, 0, 1, 0], [0, 0, 0, 1::'a::{zero,one}]],
      cell_dtype = dt\<rparr>"
  by (simp add: np_identity_def upt_4)

lemma np_identity_dims:
  "length (rows (np_identity 4 dt)) = 4" "ncols (np_identity 4 dt) = 4"
  "cell_dtype (np_identity 4 dt) = dt"
  by (simp_all add: np_identity_4 ncols_def)

lemma strip_ones_prod: "prod_list (strip_ones n sh) = prod_list sh"
  by (induction sh) auto

lemma strip_ones_short: "length sh \<le> n \<Longrightarrow> strip_ones n sh = sh"
  by (induction sh) auto

lemma bcast_length:
  "list_all2 (\<lambda>d x. x = d \<or> x = 1) dst src \<Longrightarrow> length xs = prod_list src \<Longrightarrow>
   length (bcast dst src xs) = prod_list dst"
proof (induction dst src xs rule: bcast.induct)
  case (1 d ds s ss xs)
  from "1.prems"(1) have s: "s = d \<or> s = 1" and rest: "list_all2 (\<lambda>d x. x = d \<or> x = 1) ds ss"
    by auto
  let ?p = "prod_list ss"
  have len: "length xs = s * ?p" using "1.prems"(2) by simp
  have chunk: "length (bcast ds ss (take ?p (drop ((if s = 1 then 0 else i) * ?p) xs))) = prod_list ds"
    if i: "i \<in> set [0..<d]" for i
  proof -
    have "(if s = 1 then 0 else i) < s" using s i by auto
    then have "Suc (if s = 1 then 0 else i) \<le> s" by simp
    then have "Suc (if s = 1 then 0 else i) * ?p \<le> s * ?p" by (rule mult_le_mono1)
    then have "length (take ?p (drop ((if s = 1 then 0 else i) * ?p) xs)) = ?p"
      using len by simp
    from "1.IH"[OF i rest this] show ?thesis .
  qed
  have "length (bcast (d # ds) (s # ss) xs)
      = sum_list (map (\<lambda>i. length (bcast ds ss (take ?p (drop ((if s = 1 then 0 else i) * ?p) xs)))) [0..<d])"
    by (simp add: length_concat comp_def)
  also have "\<dots> = sum_list (map (\<lambda>i. prod_list ds) [0..<d])"
    using chunk by (intro arg_cong[where f = sum_list] map_cong) auto
  also have "\<dots> = d * prod_list ds" by (simp add: sum_list_triv)
  finally show ?case by simp
next
  case (2 ss xs)
  then show ?case by simp
next
  case (3 d ds xs)
  then show ?case by simp
qed

lemma broadcast_to_length:
  assumes "wf_array src" "broadcast_to dst src = Inr vals"
  shows "length vals = prod_list dst"
proof -
  let ?s = "strip_ones (length dst) (shape src)"
  let ?padded = "replicate (length dst - length ?s) 1 @ ?s"
  from assms(2) have c: "list_all2 (\<lambda>d x. x = d \<or> x = 1) dst ?padded"
    and v: "vals = bcast dst ?padded (elems src)"
    by (auto simp: broadcast_to_def Let_def split: if_splits)
  have "length (elems src) = prod_list ?padded"
    using assms(1) by (simp add: wf_array_def strip_ones_prod)
  from bcast_length[OF c this] v show ?thesis by simp
qed

lemma nested_list_flat: "nested_list dt [length xs] xs = PList (map (py_scalar dt) xs)"
proof -
  have "map (\<lambda>i. nested_list dt [] (take (Suc 0) (drop i xs))) [0..<length xs]
      = map (py_scalar dt) xs"
  proof (rule nth_equalityI)
    show "length (map (\<lambda>i. nested_list dt [] (take (Suc 0) (drop i xs))) [0..<length xs])
        = length (map (py_scalar dt) xs)"
      by simp
  next
    fix i
    assume "i < length (map (\<lambda>i. nested_list dt [] (take (Suc 0) (drop i xs))) [0..<length xs])"
    then have i: "i < length xs" by simp
    then have "take (Suc 0) (drop i xs) = [xs ! i]"
      by (metis Cons_nth_drop_Suc take0 take_Suc_Cons)
    with i show "map (\<lambda>i. nested_list dt [] (take (Suc 0) (drop i xs))) [0..<length xs] ! i
        = map (py_scalar dt) xs ! i"
      by simp
  qed
  then show ?thesis by simp
qed

lemma tolist_flatten: "tolist (flatten a) = PList (map (py_scalar (dtype a)) (elems a))"
  by (simp add: tolist_def flatten_def nested_list_flat del: nested_list.simps)

lemma broadcast_flat_3:
  "broadcast_to [3] (flatten \<lparr>shape = sh, elems = [t0, t1, t2], dtype = dt\<rparr>)
     = Inr [t0, t1, t2]"
  by (simp add: broadcast_to_def flatten_def Let_def upt_3)

lemma calculate_extrinsics_Inr:
  assumes "calculate_extrinsics solvePnP Rodrigues cd = Inr res"
  obtains rvec tvec R_matrix T1 T_matrix where
    "solvePnP (points_3d cd) (points_2d cd) (K cd) (dist cd) = Inr (True, rvec, tvec)"
    "Rodrigues rvec = Inr R_matrix"
    "setitem_block (np_identity 4 float64) 3 3 R_matrix = Inr T1"
    "setitem_column T1 3 3 (flatten tvec) = Inr T_matrix"
    "res = PDict
       [(''rotation_matrix_R'', tolist R_matrix),
        (''translation_vector_t'', tolist (flatten tvec)),
        (''T_homogeneous_matrix_4x4'', matrix_tolist T_matrix),
        (''R_Rodrigues_vector'', tolist (flatten rvec))]"
  using assms
  by (auto simp: calculate_extrinsics_def split: sum.splits prod.splits if_splits)

lemma setitem_block_rows:
  assumes "setitem_block (np_identity 4 dt) 3 3 R_matrix = Inr T1"
  obtains vals where "broadcast_to [3, 3] R_matrix = Inr vals"
    "T1 = \<lparr>rows = [take 3 vals @ [0], take 3 (drop 3 vals) @ [0], take 3 (drop 6 vals) @ [0],
                   [0, 0, 0, 1::'a::{zero,one}]],
          cell_dtype = dt\<rparr>"
proof -
  let ?I = "[[1, 0, 0, 0], [0, 1, 0, 0], [0, 0, 1, 0], [0, 0, 0, 1::'a]]"
  from assms obtain vals where b: "broadcast_to [3, 3] R_matrix = Inr vals"
    and T1: "T1 = \<lparr>rows = map (\<lambda>i. if i < 3 then take 3 (drop (i * 3) vals) @ drop 3 (?I ! i)
                                       else ?I ! i) [0..<4],
                   cell_dtype = dt\<rparr>"
    by (auto simp: setitem_block_def np_identity_dims split: sum.splits)
       (simp add: np_identity_4)
  have "T1 = \<lparr>rows = [take 3 vals @ [0], take 3 (drop 3 vals) @ [0],
                        take 3 (drop 6 vals) @ [0], [0, 0, 0, 1]],
              cell_dtype = dt\<rparr>"
    unfolding T1 by (simp add: upt_4)
  with b show ?thesis by (rule that)
qed

lemma setitem_column_rows:
  assumes "setitem_column \<lparr>rows = [a0, a1, a2, a3], cell_dtype = dt\<rparr> 3 3 (flatten tvec)
             = Inr T_matrix"
    and "elems tvec = [t0, t1, t2]"
  shows "T_matrix = \<lparr>rows = [a0[3 := t0], a1[3 := t1], a2[3 := t2], a3], cell_dtype = dt\<rparr>"
proof -
  have f: "flatten tvec = \<lparr>shape = [3], elems = [t0, t1, t2], dtype = dtype tvec\<rparr>"
    using assms(2) by (simp add: flatten_def)
  have bt: "broadcast_to [3] (flatten tvec) = Inr [t0, t1, t2]"
    unfolding f by (simp add: broadcast_to_def Let_def upt_3)
  have l4: "length (rows \<lparr>rows = [a0, a1, a2, a3], cell_dtype = dt\<rparr>) = 4" by simp
  from assms(1) show ?thesis
    unfolding setitem_column_def l4 by (simp add: bt upt_4 split: if_splits)
qed








lemma convert_all_range:
  "convert_all f xs = Inr ys \<Longrightarrow> y \<in> set ys \<Longrightarrow> \<exists>x \<in> set xs. f x = Inr y"
proof (induction xs arbitrary: ys)
  case Nil
  then show ?case by simp
next
  case (Cons x xs)
  from Cons.prems(1) obtain z zs where z: "f x = Inr z" and zs: "convert_all f xs = Inr zs"
    and ys: "ys = z # zs"
    by (auto split: sum.splits)
  show ?case
  proof (cases "y = z")
    case True
    with z show ?thesis by auto
  next
    case False
    with Cons.prems(2) ys have "y \<in> set zs" by simp
    from Cons.IH[OF zs this] show ?thesis by auto
  qed
qed

lemma np_array_dtype:
  assumes "np_array mx dt cvt x = Inr a"
  shows "dtype a = dt" and "\<forall>y \<in> set (elems a). \<exists>v \<in> set (leaves x). cvt v = Inr y"
proof -
  from assms obtain sh xs where c: "convert_all cvt (leaves x) = Inr xs"
    and a: "a = \<lparr>shape = sh, elems = xs, dtype = dt\<rparr>"
    by (auto simp: np_array_def split: option.splits if_splits sum.splits)
  from a show "dtype a = dt" by simp
  from a convert_all_range[OF c]
  show "\<forall>y \<in> set (elems a). \<exists>v \<in> set (leaves x). cvt v = Inr y" by auto
qed

lemma build_entry_dtype:
  assumes "build_entry mx cvt int_data obs_data = Inr entry"
  shows "dtype (K entry) = float32 \<and> dtype (dist entry) = float32
       \<and> dtype (points_3d entry) = float32 \<and> dtype (points_2d entry) = float32"
  using assms
  by (auto simp: build_entry_def split: sum.splits dest: np_array_dtype(1))

lemma load_camera_dtype:
  assumes "load_camera mx cvt intr k ob = Inr (Some entry)"
  shows "dtype (K entry) = float32 \<and> dtype (dist entry) = float32
       \<and> dtype (points_3d entry) = float32 \<and> dtype (points_2d entry) = float32"
proof -
  from assms obtain int_data where "build_entry mx cvt int_data ob = Inr entry"
    by (auto simp: load_camera_def split: sum.splits bool.splits if_splits)
  then show ?thesis by (rule build_entry_dtype)
qed

lemma kept_cameras_dtype:
  assumes "(k, entry) \<in> set (kept_cameras mx cvt intr items)"
  shows "dtype (K entry) = float32 \<and> dtype (dist entry) = float32
       \<and> dtype (points_3d entry) = float32 \<and> dtype (points_2d entry) = float32"
proof -
  from assms obtain ob where "load_camera mx cvt intr k ob = Inr (Some entry)"
    by (auto simp: kept_cameras_def split: sum.splits option.splits)
  then show ?thesis by (rule load_camera_dtype)
qed

section \<open>Lemmas about element types\<close>






section \<open>Lemmas about a whole run\<close>

lemma map_of_mapped:
  "distinct (map fst xs) \<Longrightarrow> (k, v) \<in> set xs \<Longrightarrow>
   map_of (map (\<lambda>(k, v). (k, f v)) xs) k = Some (f v)"
  by (induction xs) (auto simp: rev_image_eqI)

lemma main_outcome:
  assumes "snd (load_calibration_data mx cvt fs INTRINSICS_FILE OBSERVATIONS_FILE) = Inr cams"
  shows "snd (main mx cvt pnp rod fs) =
     (if cams = [] then Inr None
      else Inr (Some (OUTPUT_FILE,
             PDict [(''cameras'', PDict (written_cameras (main mx cvt pnp rod fs)))])))"
proof -
  obtain out where l:
    "load_calibration_data mx cvt fs INTRINSICS_FILE OBSERVATIONS_FILE = (out, Inr cams)"
    using assms
    by (cases "load_calibration_data mx cvt fs INTRINSICS_FILE OBSERVATIONS_FILE") auto
  obtain cameras out' where p: "process_cameras pnp rod cams [] out = (cameras, out')"
    by (cases "process_cameras pnp rod cams [] out") auto
  from l p show ?thesis
    by (simp add: main_def written_cameras_def lookup_def)
qed

lemma main_raises:
  assumes "snd (load_calibration_data mx cvt fs INTRINSICS_FILE OBSERVATIONS_FILE) = Inl e"
  shows "main mx cvt pnp rod fs =
           (fst (load_calibration_data mx cvt fs INTRINSICS_FILE OBSERVATIONS_FILE), Inl e)"
    and "written_cameras (main mx cvt pnp rod fs) = []"
proof -
  obtain out where l:
    "load_calibration_data mx cvt fs INTRINSICS_FILE OBSERVATIONS_FILE = (out, Inl e)"
    using assms
    by (cases "load_calibration_data mx cvt fs INTRINSICS_FILE OBSERVATIONS_FILE") auto
  then show "main mx cvt pnp rod fs =
           (fst (load_calibration_data mx cvt fs INTRINSICS_FILE OBSERVATIONS_FILE), Inl e)"
    by (simp add: main_def)
  then show "written_cameras (main mx cvt pnp rod fs) = []"
    by (simp add: written_cameras_def)
qed

lemma load_calibration_data_rejected:
  assumes "absent_or_rejected (fs ip) \<or> parses (fs ip) \<and> absent_or_rejected (fs op)"
  shows "\<exists>line. load_calibration_data mx cvt fs ip op =
            ([''Loading data from '' @ ip @ '' and '' @ op @ ''...'', line], Inr [])
          \<and> take 6 line = ''ERROR:''"
  using assms
  by (auto simp: load_calibration_data_def absent_or_rejected_def parses_def Let_def
        split: json_file.splits)

lemma load_calibration_data_file_raises:
  assumes "fs ip = Raises e \<or> parses (fs ip) \<and> fs op = Raises e"
  shows "load_calibration_data mx cvt fs ip op =
            ([''Loading data from '' @ ip @ '' and '' @ op @ ''...''], Inl e)"
  using assms
  by (auto simp: load_calibration_data_def parses_def Let_def split: json_file.splits)

lemma load_calibration_data_cameras:
  assumes "fs ip = Parsed intr" "fs op = Parsed obs" "obs_cameras_of obs \<noteq> []"
  shows "load_calibration_data mx cvt fs ip op
     = load_loop mx cvt intr (obs_cameras_of obs) []
         [''Loading data from '' @ ip @ '' and '' @ op @ ''...'']"
  using assms
  by (cases obs)
     (auto simp: load_calibration_data_def obs_cameras_of_def lookup_def Let_def
           split: sum.splits option.splits pyval.splits)

lemma present_in_both_is_observed:
  "present_in_both_with_equal_counts intr obs k \<Longrightarrow> k \<in> fst ` set (obs_cameras_of obs)"
  by (auto simp: present_in_both_with_equal_counts_def rev_image_eqI
        split: option.splits dest: map_of_SomeD)

lemma build_entry_missing_field:
  assumes "lookup int_entry ''K'' = None \<or> lookup int_entry ''distortion'' = None
         \<or> lookup obs_entry ''points_3d'' = None \<or> lookup obs_entry ''points_2d'' = None"
  shows "\<exists>e. build_entry mx cvt int_entry obs_entry = Inl e"
proof (cases "build_entry mx cvt int_entry obs_entry")
  case (Inl e)
  then show ?thesis by simp
next
  case (Inr entry)
  then obtain k d p3 p2 where
    "py_getitem int_entry ''K'' = Inr k" "py_getitem int_entry ''distortion'' = Inr d"
    "py_getitem obs_entry ''points_3d'' = Inr p3" "py_getitem obs_entry ''points_2d'' = Inr p2"
    by (auto simp: build_entry_def split: sum.splits)
  then have "lookup int_entry ''K'' \<noteq> None" "lookup int_entry ''distortion'' \<noteq> None"
    "lookup obs_entry ''points_3d'' \<noteq> None" "lookup obs_entry ''points_2d'' \<noteq> None"
    by (auto simp: py_getitem_lookup split: option.splits pyval.splits)
  with assms show ?thesis by simp
qed

lemma load_camera_missing_field:
  assumes "lookup intr k = Some int_entry"
    and "lookup int_entry ''K'' = None \<or> lookup int_entry ''distortion'' = None
         \<or> lookup obs_entry ''points_3d'' = None \<or> lookup obs_entry ''points_2d'' = None"
  shows "\<exists>e. load_camera mx cvt intr k obs_entry = Inl e"
proof -
  from assms(1) obtain d where intr: "intr = PDict d" and m: "map_of d k = Some int_entry"
    by (cases intr) (auto simp: lookup_def)
  from m have "k \<in> fst ` set d" by (auto simp: rev_image_eqI dest: map_of_SomeD)
  with intr m build_entry_missing_field[OF assms(2), of mx cvt] show ?thesis
    by (auto simp: load_camera_def)
qed

lemma process_cameras_prints:
  "snd (process_cameras pnp rod cams res out) =
     out @ concat (map (\<lambda>(cam_id, cam_data).
                     [CHR 0x0A # ''Processing '' @ cam_id @ ''...'',
                      case calculate_extrinsics pnp rod cam_data of
                        Inr extrinsics \<Rightarrow> ''SUCCESS: Extrinsics calculated for '' @ cam_id @ ''.''
                      | Inl e \<Rightarrow> ''FAILURE: Could not calculate extrinsics for '' @ cam_id
                                 @ ''. Error: '' @ py_str e]) cams)"
proof (induction cams arbitrary: res out)
  case Nil
  then show ?case by simp
next
  case (Cons cam cams)
  obtain k cd where cam: "cam = (k, cd)" by (cases cam)
  show ?case
    by (cases "calculate_extrinsics pnp rod cd") (simp_all add: cam Cons.IH)
qed

lemma main_prints:
  assumes "snd (load_calibration_data mx cvt fs INTRINSICS_FILE OBSERVATIONS_FILE) = Inr cams"
    and "cams \<noteq> []"
  shows "fst (main mx cvt pnp rod fs) =
     fst (load_calibration_data mx cvt fs INTRINSICS_FILE OBSERVATIONS_FILE)
     @ concat (map (\<lambda>(cam_id, cam_data).
                     [CHR 0x0A # ''Processing '' @ cam_id @ ''...'',
                      case calculate_extrinsics pnp rod cam_data of
                        Inr extrinsics \<Rightarrow> ''SUCCESS: Extrinsics calculated for '' @ cam_id @ ''.''
                      | Inl e \<Rightarrow> ''FAILURE: Could not calculate extrinsics for '' @ cam_id
                                 @ ''. Error: '' @ py_str e]) cams)
     @ [CHR 0x0A # ''--- Processing Complete ---'', ''Results saved to: '' @ OUTPUT_FILE]"
proof -
  obtain out where l:
    "load_calibration_data mx cvt fs INTRINSICS_FILE OBSERVATIONS_FILE = (out, Inr cams)"
    using assms(1)
    by (cases "load_calibration_data mx cvt fs INTRINSICS_FILE OBSERVATIONS_FILE") auto
  obtain cameras out' where p: "process_cameras pnp rod cams [] out = (cameras, out')"
    by (cases "process_cameras pnp rod cams [] out") auto
  from process_cameras_prints[of pnp rod cams "[]" out] p
  have "out' = out @ concat (map (\<lambda>(cam_id, cam_data).
                     [CHR 0x0A # ''Processing '' @ cam_id @ ''...'',
                      case calculate_extrinsics pnp rod cam_data of
                        Inr extrinsics \<Rightarrow> ''SUCCESS: Extrinsics calculated for '' @ cam_id @ ''.''
                      | Inl e \<Rightarrow> ''FAILURE: Could not calculate extrinsics for '' @ cam_id
                                 @ ''. Error: '' @ py_str e]) cams)"
    by simp
  with l p assms(2) show ?thesis by (simp add: main_def)
qed

section \<open>The claims\<close>

subsection \<open>Evaluating the examples\<close>

lemma ex_load_three:
  "load_calibration_data 32 ex_float32
     (ex_fs (Parsed ex_intrinsics_three) (Parsed ex_observations_three))
     INTRINSICS_FILE OBSERVATIONS_FILE =
   ([''Loading data from intrinsics.json and observations.json...''],
    Inr [(''cam1'', ex_camera), (''cam2'', ex_camera),
         (''cam3'', ex_camera_short)])"
  by code_simp

lemma ex_load_mixed:
  "load_calibration_data 32 ex_float32
     (ex_fs (Parsed ex_intrinsics_mixed) (Parsed ex_observations_mixed))
     INTRINSICS_FILE OBSERVATIONS_FILE =
   ([''Loading data from intrinsics.json and observations.json...'',
     ''Warning: Intrinsics for cam2 not found. Skipping.'',
     ''Error: Mismatch in 3D/2D point count for cam3. Skipping.''],
    Inr [(''cam1'', ex_camera), (''cam4'', ex_camera_flat)])"
  by code_simp

lemma ex_solve_camera: "calculate_extrinsics ex_solvePnP ex_Rodrigues ex_camera = Inr ex_pose"
  by code_simp

lemma ex_solve_flat:
  "calculate_extrinsics ex_solvePnP ex_Rodrigues ex_camera_flat =
     Inl (RuntimeError ''cv2.solvePnP failed to converge.'')"
  by code_simp

lemma ex_solve_short:
  "calculate_extrinsics ex_solvePnP ex_Rodrigues ex_camera_short =
     Inl (LibraryError ''too few points'')"
  by code_simp

lemma ex_fs_paths:
  "ex_fs i ob INTRINSICS_FILE = i" "ex_fs i ob OBSERVATIONS_FILE = ob"
  by (simp_all add: ex_fs_def INTRINSICS_FILE_def OBSERVATIONS_FILE_def)

subsection \<open>C2: a failing camera is recorded and the batch goes on\<close>

text \<open>
  Claim C2. For every mapping the loader returns, the document \<^verbatim>\<open>main\<close> writes holds one
  entry per loaded camera, in the loaded order, and each entry depends on that camera's
  data alone: the pose when \<^verbatim>\<open>calculate_extrinsics\<close> returns, and the object
  \<^verbatim>\<open>{"error": str(e)}\<close> when it raises \<open>e\<close>. So an exception on one camera neither stops
  the loop nor changes another camera's entry, and the run ends by writing the document.
\<close>

theorem camera_failure_is_recorded_and_batch_continues:
  assumes "snd (load_calibration_data maxdims as_float32 fs INTRINSICS_FILE OBSERVATIONS_FILE)
             = Inr all_camera_data"
    and "all_camera_data \<noteq> []"
  shows "snd (main maxdims as_float32 solvePnP Rodrigues fs) =
     Inr (Some (OUTPUT_FILE,
       PDict [(''cameras'',
         PDict (map (\<lambda>(cam_id, cam_data).
                       (cam_id,
                        case calculate_extrinsics solvePnP Rodrigues cam_data of
                          Inr extrinsics \<Rightarrow> extrinsics
                        | Inl e \<Rightarrow> PDict [(''error'', PStr (py_str e))]))
                    all_camera_data))]))"
proof -
  obtain out where l:
    "load_calibration_data maxdims as_float32 fs INTRINSICS_FILE OBSERVATIONS_FILE
       = (out, Inr all_camera_data)"
    using assms(1)
    by (cases "load_calibration_data maxdims as_float32 fs INTRINSICS_FILE OBSERVATIONS_FILE")
       auto
  have d: "distinct (map fst all_camera_data)"
    by (rule loaded_keys_distinct[OF assms(1)])
  obtain cameras out' where p:
    "process_cameras solvePnP Rodrigues all_camera_data [] out = (cameras, out')"
    by (cases "process_cameras solvePnP Rodrigues all_camera_data [] out") auto
  from process_cameras_result(1)[OF d, of "[]" solvePnP Rodrigues out] p
  have "cameras = map (\<lambda>(cam_id, cam_data).
                       (cam_id,
                        case calculate_extrinsics solvePnP Rodrigues cam_data of
                          Inr extrinsics \<Rightarrow> extrinsics
                        | Inl e \<Rightarrow> PDict [(''error'', PStr (py_str e))]))
                    all_camera_data"
    by simp
  with l p assms(2) show ?thesis by (simp add: main_def)
qed

theorem camera_failure_is_recorded_and_batch_continues_witness:
  "snd (main 32 ex_float32 ex_solvePnP ex_Rodrigues
          (ex_fs (Parsed ex_intrinsics_three) (Parsed ex_observations_three))) =
     Inr (Some (''extrinsics_result.json'',
       PDict [(''cameras'',
         PDict [(''cam1'', ex_pose), (''cam2'', ex_pose),
                (''cam3'', PDict [(''error'', PStr ''too few points'')])])]))"
proof -
  let ?cams = "[(''cam1'', ex_camera), (''cam2'', ex_camera),
         (''cam3'', ex_camera_short)]"
  have l: "snd (load_calibration_data 32 ex_float32
     (ex_fs (Parsed ex_intrinsics_three) (Parsed ex_observations_three))
     INTRINSICS_FILE OBSERVATIONS_FILE) = Inr ?cams"
    by (simp add: ex_load_three)
  have n: "?cams \<noteq> []" by simp
  show ?thesis
    using camera_failure_is_recorded_and_batch_continues[OF l n, of ex_solvePnP ex_Rodrigues]
    by (simp add: ex_solve_camera ex_solve_short OUTPUT_FILE_def)
qed

subsection \<open>C1: which cameras appear in the output\<close>

text \<open>
  Claim C1. Stated for every pair of input documents, the claim fails where the loader
  raises: the run ends with the exception and nothing is written, although a camera may
  be present in both documents with equal point counts. For every pair of documents:

  \<^item> if the loader returns and no camera id is present in both documents with equal
    numbers of 3D and 2D points, \<^verbatim>\<open>main\<close> returns without writing;
  \<^item> if the loader returns and some camera id is, \<^verbatim>\<open>main\<close> writes a document that holds
    nothing but the \<^verbatim>\<open>cameras\<close> object; a camera id is a key of that object exactly when
    it is present in both documents with equal point counts, so a camera dropped at load
    time is no key at all; and a loaded camera on which solving raises \<open>e\<close> has the
    entry \<^verbatim>\<open>{"error": str(e)}\<close>;
  \<^item> if the loader raises, \<^verbatim>\<open>main\<close> ends with the same exception and writes nothing.
\<close>

theorem output_cameras_iff_present_in_both:
  assumes "fs INTRINSICS_FILE = Parsed intrinsics_data"
    and "fs OBSERVATIONS_FILE = Parsed observations_data"
    and "distinct (map fst (obs_cameras_of observations_data))"
  shows "(\<forall>all_camera_data.
            snd (load_calibration_data maxdims as_float32 fs INTRINSICS_FILE OBSERVATIONS_FILE)
              = Inr all_camera_data \<longrightarrow>
            ((\<forall>cam_id. \<not> present_in_both_with_equal_counts intrinsics_data observations_data
                          cam_id) \<longrightarrow>
               snd (main maxdims as_float32 solvePnP Rodrigues fs) = Inr None)
          \<and> ((\<exists>cam_id. present_in_both_with_equal_counts intrinsics_data observations_data
                          cam_id) \<longrightarrow>
               (\<exists>cameras.
                  snd (main maxdims as_float32 solvePnP Rodrigues fs)
                    = Inr (Some (OUTPUT_FILE, PDict [(''cameras'', PDict cameras)]))
                \<and> (\<forall>cam_id. (cam_id \<in> fst ` set cameras)
                      = present_in_both_with_equal_counts intrinsics_data observations_data
                          cam_id)
                \<and> (\<forall>cam_id cam_data e.
                      (cam_id, cam_data) \<in> set all_camera_data \<and>
                      calculate_extrinsics solvePnP Rodrigues cam_data = Inl e \<longrightarrow>
                      map_of cameras cam_id = Some (PDict [(''error'', PStr (py_str e))])))))
       \<and> (\<forall>e.
            snd (load_calibration_data maxdims as_float32 fs INTRINSICS_FILE OBSERVATIONS_FILE)
              = Inl e \<longrightarrow>
            snd (main maxdims as_float32 solvePnP Rodrigues fs) = Inl e)"
proof (intro conjI allI impI)
  fix e
  assume "snd (load_calibration_data maxdims as_float32 fs INTRINSICS_FILE OBSERVATIONS_FILE)
              = Inl e"
  from main_raises(1)[OF this, of solvePnP Rodrigues]
  show "snd (main maxdims as_float32 solvePnP Rodrigues fs) = Inl e" by simp
next
  fix all_camera_data
  assume l: "snd (load_calibration_data maxdims as_float32 fs INTRINSICS_FILE OBSERVATIONS_FILE)
              = Inr all_camera_data"
  assume none: "\<forall>cam_id. \<not> present_in_both_with_equal_counts intrinsics_data
                  observations_data cam_id"
  have "map fst all_camera_data =
      filter (present_in_both_with_equal_counts intrinsics_data observations_data)
        (map fst (obs_cameras_of observations_data))"
    by (rule loaded_cameras(1)[OF assms l])
  with none have "all_camera_data = []" by simp
  with main_outcome[OF l, of solvePnP Rodrigues]
  show "snd (main maxdims as_float32 solvePnP Rodrigues fs) = Inr None" by simp
next
  fix all_camera_data
  assume l: "snd (load_calibration_data maxdims as_float32 fs INTRINSICS_FILE OBSERVATIONS_FILE)
              = Inr all_camera_data"
  assume "\<exists>cam_id. present_in_both_with_equal_counts intrinsics_data observations_data cam_id"
  then obtain k where k: "present_in_both_with_equal_counts intrinsics_data observations_data k"
    by blast
  let ?W = "written_cameras (main maxdims as_float32 solvePnP Rodrigues fs)"
  let ?entry = "\<lambda>cam_data. case calculate_extrinsics solvePnP Rodrigues cam_data of
                             Inr extrinsics \<Rightarrow> extrinsics
                           | Inl e \<Rightarrow> PDict [(''error'', PStr (py_str e))]"
  have W: "?W = map (\<lambda>(cam_id, cam_data). (cam_id, ?entry cam_data)) all_camera_data"
    by (rule main_written(1)[OF l])
  have keys: "map fst ?W = map fst all_camera_data"
    unfolding W by (simp add: case_prod_unfold comp_def)
  have loaded: "map fst all_camera_data =
      filter (present_in_both_with_equal_counts intrinsics_data observations_data)
        (map fst (obs_cameras_of observations_data))"
    by (rule loaded_cameras(1)[OF assms l])
  have A: "(cam_id \<in> fst ` set ?W)
      = present_in_both_with_equal_counts intrinsics_data observations_data cam_id" for cam_id
  proof -
    have "(cam_id \<in> fst ` set ?W) = (cam_id \<in> set (map fst ?W))" by simp
    also have "\<dots> = (cam_id \<in> set (filter
        (present_in_both_with_equal_counts intrinsics_data observations_data)
        (map fst (obs_cameras_of observations_data))))"
      by (simp only: keys loaded)
    also have "\<dots> = (cam_id \<in> set (map fst (obs_cameras_of observations_data))
        \<and> present_in_both_with_equal_counts intrinsics_data observations_data cam_id)"
      by simp
    also have "\<dots> = present_in_both_with_equal_counts intrinsics_data observations_data cam_id"
      using present_in_both_is_observed[of intrinsics_data observations_data cam_id] by auto
    finally show ?thesis .
  qed
  from A[of k] k have "?W \<noteq> []" by auto
  with keys have n: "all_camera_data \<noteq> []" by auto
  have d: "distinct (map fst all_camera_data)" by (rule loaded_keys_distinct[OF l])
  have B: "map_of ?W cam_id = Some (PDict [(''error'', PStr (py_str e))])"
    if "(cam_id, cam_data) \<in> set all_camera_data"
      and "calculate_extrinsics solvePnP Rodrigues cam_data = Inl e" for cam_id cam_data e
    unfolding W using map_of_mapped[OF d that(1), of ?entry] that(2) by simp
  have C: "snd (main maxdims as_float32 solvePnP Rodrigues fs) =
              Inr (Some (OUTPUT_FILE, PDict [(''cameras'', PDict ?W)]))"
    using main_outcome[OF l, of solvePnP Rodrigues] n by simp
  have B': "\<forall>cam_id cam_data e.
              (cam_id, cam_data) \<in> set all_camera_data \<and>
              calculate_extrinsics solvePnP Rodrigues cam_data = Inl e \<longrightarrow>
              map_of ?W cam_id = Some (PDict [(''error'', PStr (py_str e))])"
  proof (intro allI impI)
    fix cam_id cam_data e
    assume "(cam_id, cam_data) \<in> set all_camera_data \<and>
            calculate_extrinsics solvePnP Rodrigues cam_data = Inl e"
    then have a: "(cam_id, cam_data) \<in> set all_camera_data"
      and b: "calculate_extrinsics solvePnP Rodrigues cam_data = Inl e" by simp_all
    from B[OF a b] show "map_of ?W cam_id = Some (PDict [(''error'', PStr (py_str e))])" .
  qed
  have A': "\<forall>cam_id. (cam_id \<in> fst ` set ?W)
      = present_in_both_with_equal_counts intrinsics_data observations_data cam_id"
    using A by (intro allI)
  show "\<exists>cameras.
          snd (main maxdims as_float32 solvePnP Rodrigues fs)
            = Inr (Some (OUTPUT_FILE, PDict [(''cameras'', PDict cameras)]))
        \<and> (\<forall>cam_id. (cam_id \<in> fst ` set cameras)
              = present_in_both_with_equal_counts intrinsics_data observations_data cam_id)
        \<and> (\<forall>cam_id cam_data e.
              (cam_id, cam_data) \<in> set all_camera_data \<and>
              calculate_extrinsics solvePnP Rodrigues cam_data = Inl e \<longrightarrow>
              map_of cameras cam_id = Some (PDict [(''error'', PStr (py_str e))]))"
    by (rule exI[of _ ?W]) (intro conjI C A' B')
qed

theorem output_cameras_iff_present_in_both_witness:
  "(\<exists>cameras.
      snd (main 32 ex_float32 ex_solvePnP ex_Rodrigues
             (ex_fs (Parsed ex_intrinsics_mixed) (Parsed ex_observations_mixed)))
        = Inr (Some (OUTPUT_FILE, PDict [(''cameras'', PDict cameras)]))
    \<and> ''cam1'' \<in> fst ` set cameras
    \<and> ''cam2'' \<notin> fst ` set cameras
    \<and> ''cam3'' \<notin> fst ` set cameras
    \<and> map_of cameras ''cam4''
        = Some (PDict [(''error'', PStr ''cv2.solvePnP failed to converge.'')]))
   \<and> snd (main 32 ex_float32 ex_solvePnP ex_Rodrigues
            (ex_fs (Parsed ex_intrinsics_mixed) (Parsed ex_observations_none))) = Inr None
   \<and> snd (main 32 ex_float32 ex_solvePnP ex_Rodrigues
            (ex_fs (Parsed ex_intrinsics_no_K) (Parsed ex_observations_two)))
       = Inl (KeyError ''K'')"
proof -
  let ?fs = "ex_fs (Parsed ex_intrinsics_mixed) (Parsed ex_observations_mixed)"
  let ?fsn = "ex_fs (Parsed ex_intrinsics_mixed) (Parsed ex_observations_none)"
  let ?fsK = "ex_fs (Parsed ex_intrinsics_no_K) (Parsed ex_observations_two)"
  have d: "distinct (map fst (obs_cameras_of ex_observations_mixed))" by code_simp
  have l: "snd (load_calibration_data 32 ex_float32 ?fs INTRINSICS_FILE OBSERVATIONS_FILE)
      = Inr [(''cam1'', ex_camera), (''cam4'', ex_camera_flat)]"
    by (simp add: ex_load_mixed)
  have p1: "present_in_both_with_equal_counts ex_intrinsics_mixed ex_observations_mixed ''cam1''"
    by code_simp
  have p2: "\<not> present_in_both_with_equal_counts ex_intrinsics_mixed ex_observations_mixed ''cam2''"
    by code_simp
  have p3: "\<not> present_in_both_with_equal_counts ex_intrinsics_mixed ex_observations_mixed ''cam3''"
    by code_simp
  have m: "(''cam4'', ex_camera_flat) \<in> set [(''cam1'', ex_camera), (''cam4'', ex_camera_flat)]"
    by simp
  note t = output_cameras_iff_present_in_both[
      of "ex_fs (Parsed ex_intrinsics_mixed) (Parsed ex_observations_mixed)" ex_intrinsics_mixed ex_observations_mixed
        32 ex_float32 ex_solvePnP ex_Rodrigues,
      OF ex_fs_paths(1) ex_fs_paths(2) d]
  note tl = mp[OF spec[OF conjunct1[OF t]] l]
  from p1 have "\<exists>cam_id. present_in_both_with_equal_counts ex_intrinsics_mixed
      ex_observations_mixed cam_id" by blast
  from mp[OF conjunct2[OF tl] this] obtain cameras where
    w: "snd (main 32 ex_float32 ex_solvePnP ex_Rodrigues ?fs)
          = Inr (Some (OUTPUT_FILE, PDict [(''cameras'', PDict cameras)]))"
    and A: "\<forall>cam_id. (cam_id \<in> fst ` set cameras)
          = present_in_both_with_equal_counts ex_intrinsics_mixed ex_observations_mixed cam_id"
    and B: "\<forall>cam_id cam_data e.
          (cam_id, cam_data) \<in> set [(''cam1'', ex_camera), (''cam4'', ex_camera_flat)] \<and>
          calculate_extrinsics ex_solvePnP ex_Rodrigues cam_data = Inl e \<longrightarrow>
          map_of cameras cam_id = Some (PDict [(''error'', PStr (py_str e))])"
    by blast
  from B[rule_format, OF conjI[OF m ex_solve_flat]]
  have c4: "map_of cameras ''cam4''
      = Some (PDict [(''error'', PStr ''cv2.solvePnP failed to converge.'')])"
    by simp
  from A[rule_format, of "''cam1''"] p1 have c1: "''cam1'' \<in> fst ` set cameras" by simp
  from A[rule_format, of "''cam2''"] p2 have c2: "''cam2'' \<notin> fst ` set cameras" by simp
  from A[rule_format, of "''cam3''"] p3 have c3: "''cam3'' \<notin> fst ` set cameras" by simp
  from w c1 c2 c3 c4 have first: "\<exists>cameras.
      snd (main 32 ex_float32 ex_solvePnP ex_Rodrigues ?fs)
        = Inr (Some (OUTPUT_FILE, PDict [(''cameras'', PDict cameras)]))
    \<and> ''cam1'' \<in> fst ` set cameras
    \<and> ''cam2'' \<notin> fst ` set cameras
    \<and> ''cam3'' \<notin> fst ` set cameras
    \<and> map_of cameras ''cam4''
        = Some (PDict [(''error'', PStr ''cv2.solvePnP failed to converge.'')])"
    by (intro exI[of _ cameras] conjI)
  have d0: "distinct (map fst (obs_cameras_of ex_observations_none))" by code_simp
  have l0: "snd (load_calibration_data 32 ex_float32 ?fsn INTRINSICS_FILE OBSERVATIONS_FILE)
      = Inr []"
    by code_simp
  have o0: "fst ` set (obs_cameras_of ex_observations_none) = {''cam2'', ''cam3''}"
    by code_simp
  have q2: "\<not> present_in_both_with_equal_counts ex_intrinsics_mixed ex_observations_none ''cam2''"
    by code_simp
  have q3: "\<not> present_in_both_with_equal_counts ex_intrinsics_mixed ex_observations_none ''cam3''"
    by code_simp
  have none: "\<forall>cam_id. \<not> present_in_both_with_equal_counts ex_intrinsics_mixed
      ex_observations_none cam_id"
  proof (intro allI notI)
    fix cam_id
    assume a: "present_in_both_with_equal_counts ex_intrinsics_mixed ex_observations_none cam_id"
    from present_in_both_is_observed[OF a] o0 have "cam_id = ''cam2'' \<or> cam_id = ''cam3''"
      by simp
    with a q2 q3 show False by blast
  qed
  note t0 = output_cameras_iff_present_in_both[
      of "ex_fs (Parsed ex_intrinsics_mixed) (Parsed ex_observations_none)" ex_intrinsics_mixed ex_observations_none
        32 ex_float32 ex_solvePnP ex_Rodrigues,
      OF ex_fs_paths(1) ex_fs_paths(2) d0]
  from mp[OF conjunct1[OF mp[OF spec[OF conjunct1[OF t0]] l0]] none]
  have second: "snd (main 32 ex_float32 ex_solvePnP ex_Rodrigues ?fsn) = Inr None" .
  have dK: "distinct (map fst (obs_cameras_of ex_observations_two))" by code_simp
  have lK: "snd (load_calibration_data 32 ex_float32 ?fsK INTRINSICS_FILE OBSERVATIONS_FILE)
      = Inl (KeyError ''K'')"
    by code_simp
  note tK = output_cameras_iff_present_in_both[
      of "ex_fs (Parsed ex_intrinsics_no_K) (Parsed ex_observations_two)" ex_intrinsics_no_K ex_observations_two
        32 ex_float32 ex_solvePnP ex_Rodrigues,
      OF ex_fs_paths(1) ex_fs_paths(2) dK]
  from mp[OF spec[OF conjunct2[OF tK]] lK]
  have third: "snd (main 32 ex_float32 ex_solvePnP ex_Rodrigues ?fsK) = Inl (KeyError ''K'')" .
  from first second third show ?thesis by (intro conjI)
qed

text \<open>
  The claim as stated fails on two cameras of which the second has an intrinsics entry
  without \<^verbatim>\<open>K\<close>: \<^verbatim>\<open>cam1\<close> is present in both documents with four 3D and four 2D points,
  but the loader raises \<^verbatim>\<open>KeyError('K')\<close> on \<^verbatim>\<open>cam2\<close> and nothing is written.
\<close>

theorem present_camera_lost_when_loader_raises:
  "present_in_both_with_equal_counts ex_intrinsics_no_K ex_observations_two ''cam1''
   \<and> main 32 ex_float32 ex_solvePnP ex_Rodrigues
        (ex_fs (Parsed ex_intrinsics_no_K) (Parsed ex_observations_two))
       = ([''Loading data from intrinsics.json and observations.json...''], Inl (KeyError ''K''))
   \<and> ''cam1'' \<notin> fst ` set (written_cameras (main 32 ex_float32 ex_solvePnP ex_Rodrigues
        (ex_fs (Parsed ex_intrinsics_no_K) (Parsed ex_observations_two))))"
proof -
  have p: "present_in_both_with_equal_counts ex_intrinsics_no_K ex_observations_two ''cam1''"
    by code_simp
  have m: "main 32 ex_float32 ex_solvePnP ex_Rodrigues
        (ex_fs (Parsed ex_intrinsics_no_K) (Parsed ex_observations_two))
       = ([''Loading data from intrinsics.json and observations.json...''], Inl (KeyError ''K''))"
    by code_simp
  show ?thesis unfolding m using p by (simp add: written_cameras_def)
qed

subsection \<open>C7: cameras are solved and written in the order of the observations\<close>

text \<open>
  Claim C7. For every observations document (the keys of its \<^verbatim>\<open>cameras\<close> object are
  distinct, as in every Python dict), whenever the loader returns a mapping:

  \<^item> the keys of the mapping are keys of the observations document's \<^verbatim>\<open>cameras\<close> object,
    in the order they have there;
  \<^item> \<^verbatim>\<open>main\<close> calls \<^verbatim>\<open>calculate_extrinsics\<close> on the cameras of the mapping one after the
    other in that order: the lines it prints after the loader's are, camera by camera in
    that order, the line \<^verbatim>\<open>Processing <id>...\<close> followed by the line that reports what
    \<^verbatim>\<open>calculate_extrinsics\<close> did on that camera's data, and then the two closing lines;
  \<^item> the written \<^verbatim>\<open>cameras\<close> object holds, in the same order, each camera id with what
    \<^verbatim>\<open>calculate_extrinsics\<close> gave on that camera's data.

  Whether or not the loader returns, the ids of the \<^verbatim>\<open>Processing\<close> lines are the keys of
  the written object in their order, which is the order of the observations document.
\<close>

theorem cameras_solved_and_written_in_observation_order:
  assumes "fs OBSERVATIONS_FILE = Parsed observations_data"
    and "distinct (map fst (obs_cameras_of observations_data))"
  shows "solved_ids (fst (main maxdims as_float32 solvePnP Rodrigues fs))
           = map fst (written_cameras (main maxdims as_float32 solvePnP Rodrigues fs))
       \<and> map fst (written_cameras (main maxdims as_float32 solvePnP Rodrigues fs))
           = filter (\<lambda>cam_id. cam_id \<in> fst ` set (written_cameras
                                  (main maxdims as_float32 solvePnP Rodrigues fs)))
               (map fst (obs_cameras_of observations_data))
       \<and> (\<forall>all_camera_data.
            snd (load_calibration_data maxdims as_float32 fs INTRINSICS_FILE OBSERVATIONS_FILE)
              = Inr all_camera_data \<longrightarrow>
            map fst all_camera_data
              = filter (\<lambda>cam_id. cam_id \<in> fst ` set all_camera_data)
                  (map fst (obs_cameras_of observations_data))
          \<and> written_cameras (main maxdims as_float32 solvePnP Rodrigues fs)
              = map (\<lambda>(cam_id, cam_data).
                       (cam_id,
                        case calculate_extrinsics solvePnP Rodrigues cam_data of
                          Inr extrinsics \<Rightarrow> extrinsics
                        | Inl e \<Rightarrow> PDict [(''error'', PStr (py_str e))]))
                    all_camera_data
          \<and> (all_camera_data \<noteq> [] \<longrightarrow>
               main maxdims as_float32 solvePnP Rodrigues fs
                 = (fst (load_calibration_data maxdims as_float32 fs INTRINSICS_FILE
                           OBSERVATIONS_FILE)
                    @ concat (map (\<lambda>(cam_id, cam_data).
                        [CHR 0x0A # ''Processing '' @ cam_id @ ''...'',
                         case calculate_extrinsics solvePnP Rodrigues cam_data of
                           Inr extrinsics \<Rightarrow>
                             ''SUCCESS: Extrinsics calculated for '' @ cam_id @ ''.''
                         | Inl e \<Rightarrow>
                             ''FAILURE: Could not calculate extrinsics for '' @ cam_id
                               @ ''. Error: '' @ py_str e]) all_camera_data)
                    @ [CHR 0x0A # ''--- Processing Complete ---'',
                       ''Results saved to: '' @ OUTPUT_FILE],
                    Inr (Some (OUTPUT_FILE,
                      PDict [(''cameras'',
                        PDict (map (\<lambda>(cam_id, cam_data).
                                 (cam_id,
                                  case calculate_extrinsics solvePnP Rodrigues cam_data of
                                    Inr extrinsics \<Rightarrow> extrinsics
                                  | Inl e \<Rightarrow> PDict [(''error'', PStr (py_str e))]))
                               all_camera_data))])))))"
proof (cases "snd (load_calibration_data maxdims as_float32 fs INTRINSICS_FILE OBSERVATIONS_FILE)")
  case (Inl e)
  have "solved_ids (fst (main maxdims as_float32 solvePnP Rodrigues fs)) = []"
    unfolding main_raises(1)[OF Inl] by (simp add: loader_prints_no_processing)
  with main_raises(2)[OF Inl] Inl show ?thesis by simp
next
  case (Inr cams)
  let ?M = "main maxdims as_float32 solvePnP Rodrigues fs"
  let ?W = "written_cameras ?M"
  let ?O = "map fst (obs_cameras_of observations_data)"
  let ?entries = "map (\<lambda>(cam_id, cam_data).
                       (cam_id,
                        case calculate_extrinsics solvePnP Rodrigues cam_data of
                          Inr extrinsics \<Rightarrow> extrinsics
                        | Inl e \<Rightarrow> PDict [(''error'', PStr (py_str e))])) cams"
  have W: "?W = ?entries" by (rule main_written(1)[OF Inr])
  have keys: "map fst ?W = map fst cams"
    unfolding W by (simp add: case_prod_unfold comp_def)
  have solved: "solved_ids (fst ?M) = map fst cams"
    by (rule main_written(2)[OF Inr])
  have "\<exists>P. map fst cams = filter P ?O"
  proof (cases "fs INTRINSICS_FILE")
    case (Parsed intrinsics_data)
    from loaded_cameras(1)[OF Parsed assms(1) assms(2) Inr] show ?thesis by blast
  next
    case Missing
    with Inr have "cams = []" by (auto simp: load_calibration_data_def Let_def)
    then have "map fst cams = filter (\<lambda>k. False) ?O" by simp
    then show ?thesis by blast
  next
    case (Invalid msg)
    with Inr have "cams = []" by (auto simp: load_calibration_data_def Let_def)
    then have "map fst cams = filter (\<lambda>k. False) ?O" by simp
    then show ?thesis by blast
  next
    case (Raises e)
    with Inr have False by (auto simp: load_calibration_data_def Let_def)
    then show ?thesis ..
  qed
  then obtain P where P: "map fst cams = filter P ?O" by blast
  have f: "filter (\<lambda>cam_id. cam_id \<in> set (filter P ?O)) ?O = filter P ?O"
    by (intro filter_cong) auto
  have loaded: "map fst cams = filter (\<lambda>cam_id. cam_id \<in> fst ` set cams) ?O"
  proof -
    have "fst ` set cams = set (filter P ?O)" using P by (metis list.set_map)
    with f P show ?thesis by simp
  qed
  have order: "map fst ?W = filter (\<lambda>cam_id. cam_id \<in> fst ` set ?W) ?O"
  proof -
    have "fst ` set ?W = fst ` set cams" using keys by (metis list.set_map)
    with loaded keys show ?thesis by simp
  qed
  have run: "?M = (fst (load_calibration_data maxdims as_float32 fs INTRINSICS_FILE
                           OBSERVATIONS_FILE)
                    @ concat (map (\<lambda>(cam_id, cam_data).
                        [CHR 0x0A # ''Processing '' @ cam_id @ ''...'',
                         case calculate_extrinsics solvePnP Rodrigues cam_data of
                           Inr extrinsics \<Rightarrow>
                             ''SUCCESS: Extrinsics calculated for '' @ cam_id @ ''.''
                         | Inl e \<Rightarrow>
                             ''FAILURE: Could not calculate extrinsics for '' @ cam_id
                               @ ''. Error: '' @ py_str e]) cams)
                    @ [CHR 0x0A # ''--- Processing Complete ---'',
                       ''Results saved to: '' @ OUTPUT_FILE],
                    Inr (Some (OUTPUT_FILE, PDict [(''cameras'', PDict ?entries)])))"
    if n: "cams \<noteq> []"
  proof -
    from main_outcome[OF Inr, of solvePnP Rodrigues] n
    have "snd ?M = Inr (Some (OUTPUT_FILE, PDict [(''cameras'', PDict ?W)]))" by simp
    then have s: "snd ?M = Inr (Some (OUTPUT_FILE, PDict [(''cameras'', PDict ?entries)]))"
      by (simp only: W)
    note p = main_prints[OF Inr n, of solvePnP Rodrigues]
    show ?thesis by (rule prod_eqI) (simp_all only: fst_conv snd_conv p s)
  qed
  show ?thesis
  proof (intro conjI allI impI)
    show "solved_ids (fst ?M) = map fst ?W" using solved keys by simp
  next
    show "map fst ?W = filter (\<lambda>cam_id. cam_id \<in> fst ` set ?W) ?O" by (rule order)
  next
    fix all_camera_data
    assume a: "snd (load_calibration_data maxdims as_float32 fs INTRINSICS_FILE
                  OBSERVATIONS_FILE) = Inr all_camera_data"
    with Inr have e: "all_camera_data = cams" by simp
    show "map fst all_camera_data
              = filter (\<lambda>cam_id. cam_id \<in> fst ` set all_camera_data) ?O"
      unfolding e by (rule loaded)
    show "?W = map (\<lambda>(cam_id, cam_data).
                       (cam_id,
                        case calculate_extrinsics solvePnP Rodrigues cam_data of
                          Inr extrinsics \<Rightarrow> extrinsics
                        | Inl e \<Rightarrow> PDict [(''error'', PStr (py_str e))]))
                    all_camera_data"
      unfolding e by (rule W)
    assume "all_camera_data \<noteq> []"
    then have "cams \<noteq> []" by (simp add: e)
    from run[OF this]
    show "?M = (fst (load_calibration_data maxdims as_float32 fs INTRINSICS_FILE
                           OBSERVATIONS_FILE)
                    @ concat (map (\<lambda>(cam_id, cam_data).
                        [CHR 0x0A # ''Processing '' @ cam_id @ ''...'',
                         case calculate_extrinsics solvePnP Rodrigues cam_data of
                           Inr extrinsics \<Rightarrow>
                             ''SUCCESS: Extrinsics calculated for '' @ cam_id @ ''.''
                         | Inl e \<Rightarrow>
                             ''FAILURE: Could not calculate extrinsics for '' @ cam_id
                               @ ''. Error: '' @ py_str e]) all_camera_data)
                    @ [CHR 0x0A # ''--- Processing Complete ---'',
                       ''Results saved to: '' @ OUTPUT_FILE],
                    Inr (Some (OUTPUT_FILE,
                      PDict [(''cameras'',
                        PDict (map (\<lambda>(cam_id, cam_data).
                                 (cam_id,
                                  case calculate_extrinsics solvePnP Rodrigues cam_data of
                                    Inr extrinsics \<Rightarrow> extrinsics
                                  | Inl e \<Rightarrow> PDict [(''error'', PStr (py_str e))]))
                               all_camera_data))])))"
      unfolding e .
  qed
qed

theorem cameras_solved_and_written_in_observation_order_witness:
  "map fst (obs_cameras_of ex_observations_mixed) = [''cam1'', ''cam2'', ''cam3'', ''cam4'']
   \<and> main 32 ex_float32 ex_solvePnP ex_Rodrigues
        (ex_fs (Parsed ex_intrinsics_mixed) (Parsed ex_observations_mixed))
     = ([''Loading data from intrinsics.json and observations.json...'',
         ''Warning: Intrinsics for cam2 not found. Skipping.'',
         ''Error: Mismatch in 3D/2D point count for cam3. Skipping.'',
         CHR 0x0A # ''Processing cam1...'',
         ''SUCCESS: Extrinsics calculated for cam1.'',
         CHR 0x0A # ''Processing cam4...'',
         ''FAILURE: Could not calculate extrinsics for cam4. Error: cv2.solvePnP failed to converge.'',
         CHR 0x0A # ''--- Processing Complete ---'',
         ''Results saved to: extrinsics_result.json''],
        Inr (Some (''extrinsics_result.json'',
          PDict [(''cameras'',
            PDict [(''cam1'', ex_pose),
                   (''cam4'',
                    PDict [(''error'', PStr ''cv2.solvePnP failed to converge.'')])])])))
   \<and> solved_ids (fst (main 32 ex_float32 ex_solvePnP ex_Rodrigues
        (ex_fs (Parsed ex_intrinsics_mixed) (Parsed ex_observations_mixed)))) = [''cam1'', ''cam4'']"
proof -
  let ?fs = "ex_fs (Parsed ex_intrinsics_mixed) (Parsed ex_observations_mixed)"
  let ?cams = "[(''cam1'', ex_camera), (''cam4'', ex_camera_flat)]"
  have o: "map fst (obs_cameras_of ex_observations_mixed) = [''cam1'', ''cam2'', ''cam3'', ''cam4'']"
    by code_simp
  have d: "distinct (map fst (obs_cameras_of ex_observations_mixed))"
    unfolding o by simp
  have l: "snd (load_calibration_data 32 ex_float32 ?fs INTRINSICS_FILE OBSERVATIONS_FILE)
      = Inr ?cams"
    by (simp add: ex_load_mixed)
  have n: "?cams \<noteq> []" by simp
  have f: "?fs OBSERVATIONS_FILE = Parsed ex_observations_mixed" by (simp add: ex_fs_paths)
  note t = cameras_solved_and_written_in_observation_order[
      of "ex_fs (Parsed ex_intrinsics_mixed) (Parsed ex_observations_mixed)"
        ex_observations_mixed 32 ex_float32 ex_solvePnP ex_Rodrigues, OF f d]
  note t1 = conjunct1[OF t]
  note t3 = mp[OF spec[OF conjunct2[OF conjunct2[OF t]]] l]
  note keys = conjunct1[OF t3]
  note run = mp[OF conjunct2[OF conjunct2[OF t3]] n]
  from run have r: "main 32 ex_float32 ex_solvePnP ex_Rodrigues ?fs
     = ([''Loading data from intrinsics.json and observations.json...'',
         ''Warning: Intrinsics for cam2 not found. Skipping.'',
         ''Error: Mismatch in 3D/2D point count for cam3. Skipping.'',
         CHR 0x0A # ''Processing cam1...'',
         ''SUCCESS: Extrinsics calculated for cam1.'',
         CHR 0x0A # ''Processing cam4...'',
         ''FAILURE: Could not calculate extrinsics for cam4. Error: cv2.solvePnP failed to converge.'',
         CHR 0x0A # ''--- Processing Complete ---'',
         ''Results saved to: extrinsics_result.json''],
        Inr (Some (''extrinsics_result.json'',
          PDict [(''cameras'',
            PDict [(''cam1'', ex_pose),
                   (''cam4'',
                    PDict [(''error'', PStr ''cv2.solvePnP failed to converge.'')])])])))"
    by (simp add: ex_load_mixed ex_solve_camera ex_solve_flat OUTPUT_FILE_def)
  from t1 conjunct1[OF conjunct2[OF t3]]
  have s: "solved_ids (fst (main 32 ex_float32 ex_solvePnP ex_Rodrigues ?fs))
      = [''cam1'', ''cam4'']"
    by simp
  from o r s show ?thesis by (intro conjI)
qed

subsection \<open>C9: a missing field aborts the whole run\<close>

text \<open>
  Claim C9. When a camera id is a key of both documents and its intrinsics entry lacks
  \<^verbatim>\<open>K\<close> or \<^verbatim>\<open>distortion\<close>, or its observation entry lacks \<^verbatim>\<open>points_3d\<close> or \<^verbatim>\<open>points_2d\<close>,
  the loader raises; \<^verbatim>\<open>main\<close> does not catch the exception, so the run ends with it and
  writes nothing, for any other camera either.
\<close>

theorem missing_field_aborts_the_run:
  assumes "fs INTRINSICS_FILE = Parsed intrinsics_data"
    and "fs OBSERVATIONS_FILE = Parsed observations_data"
    and "(cam_id, obs_entry) \<in> set (obs_cameras_of observations_data)"
    and "lookup intrinsics_data cam_id = Some int_entry"
    and "lookup int_entry ''K'' = None \<or> lookup int_entry ''distortion'' = None
         \<or> lookup obs_entry ''points_3d'' = None \<or> lookup obs_entry ''points_2d'' = None"
  shows "\<exists>e. snd (load_calibration_data maxdims as_float32 fs INTRINSICS_FILE OBSERVATIONS_FILE)
              = Inl e
           \<and> snd (main maxdims as_float32 solvePnP Rodrigues fs) = Inl e
           \<and> written_cameras (main maxdims as_float32 solvePnP Rodrigues fs) = []"
proof -
  from assms(3) have ne: "obs_cameras_of observations_data \<noteq> []" by auto
  from load_camera_missing_field[OF assms(4,5)] obtain e' where
    "load_camera maxdims as_float32 intrinsics_data cam_id obs_entry = Inl e'" by blast
  from load_loop_raises[OF assms(3) this,
      of "[]" "[''Loading data from '' @ INTRINSICS_FILE @ '' and '' @ OBSERVATIONS_FILE @ ''...'']"]
  obtain e where
    "snd (load_loop maxdims as_float32 intrinsics_data (obs_cameras_of observations_data) []
       [''Loading data from '' @ INTRINSICS_FILE @ '' and '' @ OBSERVATIONS_FILE @ ''...''])
     = Inl e"
    by blast
  then have
    e: "snd (load_calibration_data maxdims as_float32 fs INTRINSICS_FILE OBSERVATIONS_FILE) = Inl e"
    by (simp only: load_calibration_data_cameras[OF assms(1,2) ne])
  from main_raises[OF e, of solvePnP Rodrigues] e show ?thesis by simp
qed

theorem missing_field_aborts_the_run_witness:
  "(''cam2'', ex_observation) \<in> set (obs_cameras_of ex_observations_two)
   \<and> lookup ex_intrinsics_no_K ''cam2'' = Some ex_entry_no_K
   \<and> lookup ex_entry_no_K ''K'' = None
   \<and> (\<exists>e. snd (load_calibration_data 32 ex_float32
               (ex_fs (Parsed ex_intrinsics_no_K) (Parsed ex_observations_two))
               INTRINSICS_FILE OBSERVATIONS_FILE) = Inl e
         \<and> snd (main 32 ex_float32 ex_solvePnP ex_Rodrigues
               (ex_fs (Parsed ex_intrinsics_no_K) (Parsed ex_observations_two))) = Inl e
         \<and> written_cameras (main 32 ex_float32 ex_solvePnP ex_Rodrigues
               (ex_fs (Parsed ex_intrinsics_no_K) (Parsed ex_observations_two))) = [])"
proof -
  have c: "(''cam2'', ex_observation) \<in> set (obs_cameras_of ex_observations_two)" by code_simp
  have i: "lookup ex_intrinsics_no_K ''cam2'' = Some ex_entry_no_K" by code_simp
  have k: "lookup ex_entry_no_K ''K'' = None" by code_simp
  have k': "lookup ex_entry_no_K ''K'' = None \<or> lookup ex_entry_no_K ''distortion'' = None
         \<or> lookup ex_observation ''points_3d'' = None \<or> lookup ex_observation ''points_2d'' = None"
    by (rule disjI1) (rule k)
  note t = missing_field_aborts_the_run[OF ex_fs_paths(1) ex_fs_paths(2) c i k',
      of 32 ex_float32 ex_solvePnP ex_Rodrigues]
  from c i k t show ?thesis by (intro conjI)
qed

subsection \<open>C5: which input failures end the run quietly\<close>

text \<open>
  Claim C5. Stated for every absent or invalid input, the claim fails on a file that
  exists and whose bytes are not text in the encoding of \<^verbatim>\<open>open\<close>: it holds no valid JSON,
  but reading it raises \<^verbatim>\<open>UnicodeDecodeError\<close>, which the \<^verbatim>\<open>try\<close> statement does not catch.
  What holds, files being opened in the order intrinsics, observations:

  \<^item> if the intrinsics file is absent or rejected by \<^verbatim>\<open>json.load\<close> with
    \<^verbatim>\<open>JSONDecodeError\<close>, or it parses and the observations file is absent or so rejected,
    the loader prints its first line and one \<^verbatim>\<open>ERROR:\<close> line and returns the empty
    mapping, and \<^verbatim>\<open>main\<close> returns without writing;
  \<^item> if opening or reading the intrinsics file raises another exception, or the
    intrinsics file parses and the observations file raises one, the loader raises it
    and \<^verbatim>\<open>main\<close> ends with it, without writing (also when the other file is absent);
  \<^item> whenever the loader returns a mapping with at least one camera, \<^verbatim>\<open>main\<close> writes the
    output file.
\<close>

theorem caught_input_errors_exit_without_output:
  "(absent_or_rejected (fs INTRINSICS_FILE)
      \<or> parses (fs INTRINSICS_FILE) \<and> absent_or_rejected (fs OBSERVATIONS_FILE) \<longrightarrow>
      (\<exists>line. load_calibration_data maxdims as_float32 fs INTRINSICS_FILE OBSERVATIONS_FILE
                 = ([''Loading data from '' @ INTRINSICS_FILE @ '' and '' @ OBSERVATIONS_FILE
                      @ ''...'', line], Inr [])
               \<and> take 6 line = ''ERROR:'')
      \<and> snd (main maxdims as_float32 solvePnP Rodrigues fs) = Inr None)
   \<and> (\<forall>e. fs INTRINSICS_FILE = Raises e
            \<or> parses (fs INTRINSICS_FILE) \<and> fs OBSERVATIONS_FILE = Raises e \<longrightarrow>
        snd (load_calibration_data maxdims as_float32 fs INTRINSICS_FILE OBSERVATIONS_FILE)
          = Inl e
      \<and> snd (main maxdims as_float32 solvePnP Rodrigues fs) = Inl e)
   \<and> (\<forall>all_camera_data.
        snd (load_calibration_data maxdims as_float32 fs INTRINSICS_FILE OBSERVATIONS_FILE)
          = Inr all_camera_data \<and> all_camera_data \<noteq> [] \<longrightarrow>
        (\<exists>document. snd (main maxdims as_float32 solvePnP Rodrigues fs)
                       = Inr (Some (OUTPUT_FILE, document))))"
proof (intro conjI allI impI)
  assume u: "absent_or_rejected (fs INTRINSICS_FILE)
      \<or> parses (fs INTRINSICS_FILE) \<and> absent_or_rejected (fs OBSERVATIONS_FILE)"
  from load_calibration_data_rejected[OF u, of maxdims as_float32]
  show "\<exists>line. load_calibration_data maxdims as_float32 fs INTRINSICS_FILE OBSERVATIONS_FILE
                 = ([''Loading data from '' @ INTRINSICS_FILE @ '' and '' @ OBSERVATIONS_FILE
                      @ ''...'', line], Inr [])
               \<and> take 6 line = ''ERROR:''" .
next
  assume u: "absent_or_rejected (fs INTRINSICS_FILE)
      \<or> parses (fs INTRINSICS_FILE) \<and> absent_or_rejected (fs OBSERVATIONS_FILE)"
  from load_calibration_data_rejected[OF u, of maxdims as_float32]
  have "snd (load_calibration_data maxdims as_float32 fs INTRINSICS_FILE OBSERVATIONS_FILE)
          = Inr []"
    by auto
  from main_outcome[OF this, of solvePnP Rodrigues]
  show "snd (main maxdims as_float32 solvePnP Rodrigues fs) = Inr None" by simp
next
  fix e
  assume r: "fs INTRINSICS_FILE = Raises e
            \<or> parses (fs INTRINSICS_FILE) \<and> fs OBSERVATIONS_FILE = Raises e"
  from load_calibration_data_file_raises[OF r, of maxdims as_float32]
  show l: "snd (load_calibration_data maxdims as_float32 fs INTRINSICS_FILE OBSERVATIONS_FILE)
          = Inl e"
    by simp
  from main_raises(1)[OF l, of solvePnP Rodrigues]
  show "snd (main maxdims as_float32 solvePnP Rodrigues fs) = Inl e" by simp
next
  fix all_camera_data
  assume "snd (load_calibration_data maxdims as_float32 fs INTRINSICS_FILE OBSERVATIONS_FILE)
          = Inr all_camera_data \<and> all_camera_data \<noteq> []"
  then have l: "snd (load_calibration_data maxdims as_float32 fs INTRINSICS_FILE
          OBSERVATIONS_FILE) = Inr all_camera_data"
    and n: "all_camera_data \<noteq> []" by simp_all
  from main_outcome[OF l, of solvePnP Rodrigues] n
  show "\<exists>document. snd (main maxdims as_float32 solvePnP Rodrigues fs)
                       = Inr (Some (OUTPUT_FILE, document))"
    by simp
qed

theorem caught_input_errors_exit_without_output_witness:
  "snd (main 32 ex_float32 ex_solvePnP ex_Rodrigues (ex_fs Missing Missing)) = Inr None
   \<and> snd (main 32 ex_float32 ex_solvePnP ex_Rodrigues
        (ex_fs (Parsed ex_intrinsics_three)
           (Invalid ''Expecting value: line 1 column 1 (char 0)''))) = Inr None
   \<and> snd (main 32 ex_float32 ex_solvePnP ex_Rodrigues
        (ex_fs (Raises PermissionError) Missing)) = Inl PermissionError
   \<and> snd (main 32 ex_float32 ex_solvePnP ex_Rodrigues
        (ex_fs (Parsed ex_intrinsics_three) (Raises UnicodeDecodeError)))
       = Inl UnicodeDecodeError
   \<and> (\<exists>document. snd (main 32 ex_float32 ex_solvePnP ex_Rodrigues
        (ex_fs (Parsed ex_intrinsics_three) (Parsed ex_observations_three)))
          = Inr (Some (OUTPUT_FILE, document)))"
proof -
  let ?absent = "ex_fs Missing Missing"
  let ?broken = "ex_fs (Parsed ex_intrinsics_three)
           (Invalid ''Expecting value: line 1 column 1 (char 0)'')"
  let ?denied = "ex_fs (Raises PermissionError) Missing"
  let ?bytes = "ex_fs (Parsed ex_intrinsics_three) (Raises UnicodeDecodeError)"
  let ?good = "ex_fs (Parsed ex_intrinsics_three) (Parsed ex_observations_three)"
  have u1: "absent_or_rejected (?absent INTRINSICS_FILE)
      \<or> parses (?absent INTRINSICS_FILE) \<and> absent_or_rejected (?absent OBSERVATIONS_FILE)"
    by (simp add: ex_fs_paths absent_or_rejected_def)
  have u2: "absent_or_rejected (?broken INTRINSICS_FILE)
      \<or> parses (?broken INTRINSICS_FILE) \<and> absent_or_rejected (?broken OBSERVATIONS_FILE)"
    by (simp add: ex_fs_paths absent_or_rejected_def parses_def)
  have r1: "?denied INTRINSICS_FILE = Raises PermissionError
      \<or> parses (?denied INTRINSICS_FILE) \<and> ?denied OBSERVATIONS_FILE = Raises PermissionError"
    by (simp add: ex_fs_paths)
  have r2: "?bytes INTRINSICS_FILE = Raises UnicodeDecodeError
      \<or> parses (?bytes INTRINSICS_FILE) \<and> ?bytes OBSERVATIONS_FILE = Raises UnicodeDecodeError"
    by (simp add: ex_fs_paths parses_def)
  have l: "snd (load_calibration_data 32 ex_float32 ?good INTRINSICS_FILE OBSERVATIONS_FILE)
      = Inr [(''cam1'', ex_camera), (''cam2'', ex_camera), (''cam3'', ex_camera_short)]
     \<and> [(''cam1'', ex_camera), (''cam2'', ex_camera), (''cam3'', ex_camera_short)] \<noteq> []"
    by (simp add: ex_load_three)
  note a = caught_input_errors_exit_without_output[
      of ?absent 32 ex_float32 ex_solvePnP ex_Rodrigues]
  note b = caught_input_errors_exit_without_output[
      of ?broken 32 ex_float32 ex_solvePnP ex_Rodrigues]
  note c = caught_input_errors_exit_without_output[
      of ?good 32 ex_float32 ex_solvePnP ex_Rodrigues]
  note p = caught_input_errors_exit_without_output[
      of ?denied 32 ex_float32 ex_solvePnP ex_Rodrigues]
  note q = caught_input_errors_exit_without_output[
      of ?bytes 32 ex_float32 ex_solvePnP ex_Rodrigues]
  note a' = conjunct2[OF mp[OF conjunct1[OF a] u1]]
  note b' = conjunct2[OF mp[OF conjunct1[OF b] u2]]
  note p' = conjunct2[OF mp[OF spec[OF conjunct1[OF conjunct2[OF p]]] r1]]
  note q' = conjunct2[OF mp[OF spec[OF conjunct1[OF conjunct2[OF q]]] r2]]
  note c' = mp[OF spec[OF conjunct2[OF conjunct2[OF c]]] l]
  from a' b' p' q' c' show ?thesis by (intro conjI)
qed

text \<open>
  The claim as stated fails on an intrinsics file that is not valid JSON because its
  bytes are not text: the loader raises \<^verbatim>\<open>UnicodeDecodeError\<close>, and so does \<^verbatim>\<open>main\<close>.
\<close>

theorem undecodable_input_raises:
  "absent_or_invalid_json (ex_fs (Raises UnicodeDecodeError) (Parsed ex_observations_three)
                             INTRINSICS_FILE)
   \<and> load_calibration_data 32 ex_float32
        (ex_fs (Raises UnicodeDecodeError) (Parsed ex_observations_three))
        INTRINSICS_FILE OBSERVATIONS_FILE
       = ([''Loading data from intrinsics.json and observations.json...''],
          Inl UnicodeDecodeError)
   \<and> main 32 ex_float32 ex_solvePnP ex_Rodrigues
        (ex_fs (Raises UnicodeDecodeError) (Parsed ex_observations_three))
       = ([''Loading data from intrinsics.json and observations.json...''],
          Inl UnicodeDecodeError)"
  by code_simp

subsection \<open>C8: an observations document without a \<^verbatim>\<open>cameras\<close> key\<close>

text \<open>
  Claim C8. Stated for every observations document that parses as JSON, the claim fails
  on a document that is not an object: it has no \<^verbatim>\<open>cameras\<close> key, and
  \<^verbatim>\<open>observations_data.get\<close> raises \<^verbatim>\<open>AttributeError\<close>. What holds, when both files parse:

  \<^item> if the observations document is a JSON object without the key \<^verbatim>\<open>cameras\<close>, the
    loader prints its first line only and returns the empty mapping without raising, and
    \<^verbatim>\<open>main\<close> prints one more line and returns without writing output;
  \<^item> if the observations document is not a JSON object (a list, a string, a number, a
    boolean or \<^verbatim>\<open>null\<close>), the loader raises \<^verbatim>\<open>AttributeError\<close> after its first line, and
    \<^verbatim>\<open>main\<close> ends with that exception, without writing output.
\<close>

theorem observations_without_cameras_key:
  assumes "fs INTRINSICS_FILE = Parsed intrinsics_data"
    and "fs OBSERVATIONS_FILE = Parsed observations_data"
    and "lookup observations_data ''cameras'' = None"
  shows "(is_object observations_data \<longrightarrow>
            load_calibration_data maxdims as_float32 fs INTRINSICS_FILE OBSERVATIONS_FILE
              = ([''Loading data from '' @ INTRINSICS_FILE @ '' and '' @ OBSERVATIONS_FILE
                    @ ''...''], Inr [])
          \<and> main maxdims as_float32 solvePnP Rodrigues fs
              = ([''Loading data from '' @ INTRINSICS_FILE @ '' and '' @ OBSERVATIONS_FILE
                    @ ''...'', ''No valid camera data loaded. Exiting.''], Inr None))
       \<and> (\<not> is_object observations_data \<longrightarrow>
            load_calibration_data maxdims as_float32 fs INTRINSICS_FILE OBSERVATIONS_FILE
              = ([''Loading data from '' @ INTRINSICS_FILE @ '' and '' @ OBSERVATIONS_FILE
                    @ ''...''], Inl AttributeError)
          \<and> main maxdims as_float32 solvePnP Rodrigues fs
              = ([''Loading data from '' @ INTRINSICS_FILE @ '' and '' @ OBSERVATIONS_FILE
                    @ ''...''], Inl AttributeError))"
proof (intro conjI impI)
  assume "is_object observations_data"
  then obtain d where d: "observations_data = PDict d"
    by (cases observations_data) (simp_all add: is_object_def)
  with assms(3) have n: "map_of d ''cameras'' = None" by (simp add: lookup_def)
  show l: "load_calibration_data maxdims as_float32 fs INTRINSICS_FILE OBSERVATIONS_FILE
              = ([''Loading data from '' @ INTRINSICS_FILE @ '' and '' @ OBSERVATIONS_FILE
                    @ ''...''], Inr [])"
    using assms(1,2) d n by (simp add: load_calibration_data_def Let_def)
  show "main maxdims as_float32 solvePnP Rodrigues fs
              = ([''Loading data from '' @ INTRINSICS_FILE @ '' and '' @ OBSERVATIONS_FILE
                    @ ''...'', ''No valid camera data loaded. Exiting.''], Inr None)"
    by (simp add: main_def l)
next
  assume o: "\<not> is_object observations_data"
  show l: "load_calibration_data maxdims as_float32 fs INTRINSICS_FILE OBSERVATIONS_FILE
              = ([''Loading data from '' @ INTRINSICS_FILE @ '' and '' @ OBSERVATIONS_FILE
                    @ ''...''], Inl AttributeError)"
    using assms(1,2) o
    by (cases observations_data) (simp_all add: load_calibration_data_def Let_def is_object_def)
  show "main maxdims as_float32 solvePnP Rodrigues fs
              = ([''Loading data from '' @ INTRINSICS_FILE @ '' and '' @ OBSERVATIONS_FILE
                    @ ''...''], Inl AttributeError)"
    by (simp add: main_def l)
qed

theorem observations_without_cameras_key_witness:
  "lookup (PDict [(''frames'', PList [])] :: int pyval) ''cameras'' = None
   \<and> main 32 ex_float32 ex_solvePnP ex_Rodrigues
        (ex_fs (Parsed ex_intrinsics_three) (Parsed (PDict [(''frames'', PList [])])))
       = ([''Loading data from intrinsics.json and observations.json...'',
           ''No valid camera data loaded. Exiting.''], Inr None)
   \<and> lookup (PBool True :: int pyval) ''cameras'' = None
   \<and> main 32 ex_float32 ex_solvePnP ex_Rodrigues
        (ex_fs (Parsed ex_intrinsics_three) (Parsed (PBool True)))
       = ([''Loading data from intrinsics.json and observations.json...''],
          Inl AttributeError)"
proof -
  let ?obj = "PDict [(''frames'', PList [])] :: int pyval"
  let ?fso = "ex_fs (Parsed ex_intrinsics_three) (Parsed ?obj)"
  let ?fsb = "ex_fs (Parsed ex_intrinsics_three) (Parsed (PBool True))"
  have io: "?fso INTRINSICS_FILE = Parsed ex_intrinsics_three"
    and oo: "?fso OBSERVATIONS_FILE = Parsed ?obj"
    and ib: "?fsb INTRINSICS_FILE = Parsed ex_intrinsics_three"
    and ob: "?fsb OBSERVATIONS_FILE = Parsed (PBool True)"
    by (simp_all add: ex_fs_paths)
  have ko: "lookup ?obj ''cameras'' = None" by (simp add: lookup_def)
  have kb: "lookup (PBool True :: int pyval) ''cameras'' = None" by (simp add: lookup_def)
  have so: "is_object ?obj" by (simp add: is_object_def)
  have sb: "\<not> is_object (PBool True :: int pyval)" by (simp add: is_object_def)
  note t = observations_without_cameras_key[
      of "ex_fs (Parsed ex_intrinsics_three) (Parsed (PDict [(''frames'', PList [])]))"
        ex_intrinsics_three "PDict [(''frames'', PList [])]"
        32 ex_float32 ex_solvePnP ex_Rodrigues, OF io oo ko]
  note u = observations_without_cameras_key[
      of "ex_fs (Parsed ex_intrinsics_three) (Parsed (PBool True))"
        ex_intrinsics_three "PBool True"
        32 ex_float32 ex_solvePnP ex_Rodrigues, OF ib ob kb]
  from conjunct2[OF mp[OF conjunct1[OF t] so]]
  have a: "main 32 ex_float32 ex_solvePnP ex_Rodrigues ?fso
       = ([''Loading data from intrinsics.json and observations.json...'',
           ''No valid camera data loaded. Exiting.''], Inr None)"
    by (simp add: INTRINSICS_FILE_def OBSERVATIONS_FILE_def)
  from conjunct2[OF mp[OF conjunct2[OF u] sb]]
  have b: "main 32 ex_float32 ex_solvePnP ex_Rodrigues ?fsb
       = ([''Loading data from intrinsics.json and observations.json...''],
          Inl AttributeError)"
    by (simp add: INTRINSICS_FILE_def OBSERVATIONS_FILE_def)
  from ko a kb b show ?thesis by (intro conjI)
qed

text \<open>
  The claim as stated fails on the observations document \<^verbatim>\<open>[]\<close>: it is valid JSON and
  has no \<^verbatim>\<open>cameras\<close> key, and the loader raises \<^verbatim>\<open>AttributeError\<close>, which ends the run.
\<close>

theorem observations_list_raises:
  "lookup (PList [] :: int pyval) ''cameras'' = None
   \<and> load_calibration_data 32 ex_float32
        (ex_fs (Parsed ex_intrinsics_three) (Parsed (PList [])))
        INTRINSICS_FILE OBSERVATIONS_FILE
       = ([''Loading data from intrinsics.json and observations.json...''], Inl AttributeError)
   \<and> snd (main 32 ex_float32 ex_solvePnP ex_Rodrigues
        (ex_fs (Parsed ex_intrinsics_three) (Parsed (PList [])))) = Inl AttributeError"
  by code_simp

subsection \<open>C3: non-convergence raises, for that camera only\<close>

text \<open>
  Claim C3. The claim names the exception \<^verbatim>\<open>SolverError("PnP failed to converge")\<close>; the
  program raises \<^verbatim>\<open>RuntimeError("cv2.solvePnP failed to converge.")\<close>, and that text is
  what reaches the output. With this message the claim holds: whenever
  \<^verbatim>\<open>cv2.solvePnP\<close> returns a false success flag for a loaded camera,
  \<^verbatim>\<open>calculate_extrinsics\<close> raises the \<^verbatim>\<open>RuntimeError\<close>, and the exception ends the
  processing of that camera only: \<^verbatim>\<open>main\<close> stores its text as the camera's error entry,
  every loaded camera still gets an entry, and the document is written.
\<close>

theorem non_convergence_raises_for_that_camera_only:
  assumes "solvePnP (points_3d cam_data) (points_2d cam_data) (K cam_data) (dist cam_data)
             = Inr (False, rvec, tvec)"
    and "snd (load_calibration_data maxdims as_float32 fs INTRINSICS_FILE OBSERVATIONS_FILE)
           = Inr all_camera_data"
    and "(cam_id, cam_data) \<in> set all_camera_data"
  shows "calculate_extrinsics solvePnP Rodrigues cam_data
           = Inl (RuntimeError ''cv2.solvePnP failed to converge.'')
       \<and> map_of (written_cameras (main maxdims as_float32 solvePnP Rodrigues fs)) cam_id
           = Some (PDict [(''error'', PStr ''cv2.solvePnP failed to converge.'')])
       \<and> map fst (written_cameras (main maxdims as_float32 solvePnP Rodrigues fs))
           = map fst all_camera_data
       \<and> snd (main maxdims as_float32 solvePnP Rodrigues fs)
           = Inr (Some (OUTPUT_FILE,
               PDict [(''cameras'',
                 PDict (written_cameras (main maxdims as_float32 solvePnP Rodrigues fs)))]))"
proof -
  let ?W = "written_cameras (main maxdims as_float32 solvePnP Rodrigues fs)"
  let ?entry = "\<lambda>cam_data. case calculate_extrinsics solvePnP Rodrigues cam_data of
                             Inr extrinsics \<Rightarrow> extrinsics
                           | Inl e \<Rightarrow> PDict [(''error'', PStr (py_str e))]"
  have r: "calculate_extrinsics solvePnP Rodrigues cam_data
           = Inl (RuntimeError ''cv2.solvePnP failed to converge.'')"
    using assms(1) by (simp add: calculate_extrinsics_def)
  have W: "?W = map (\<lambda>(cam_id, cam_data). (cam_id, ?entry cam_data)) all_camera_data"
    by (rule main_written(1)[OF assms(2)])
  have keys: "map fst ?W = map fst all_camera_data"
    unfolding W by (simp add: case_prod_unfold comp_def)
  have d: "distinct (map fst all_camera_data)" by (rule loaded_keys_distinct[OF assms(2)])
  have e: "map_of ?W cam_id = Some (PDict [(''error'', PStr ''cv2.solvePnP failed to converge.'')])"
    unfolding W using map_of_mapped[OF d assms(3), of ?entry] r by simp
  from assms(3) have n: "all_camera_data \<noteq> []" by auto
  from main_outcome[OF assms(2), of solvePnP Rodrigues] n
  have o: "snd (main maxdims as_float32 solvePnP Rodrigues fs)
           = Inr (Some (OUTPUT_FILE, PDict [(''cameras'', PDict ?W)]))"
    by simp
  from r e keys o show ?thesis by (intro conjI)
qed

theorem non_convergence_raises_for_that_camera_only_witness:
  "calculate_extrinsics ex_solvePnP ex_Rodrigues ex_camera_flat
           = Inl (RuntimeError ''cv2.solvePnP failed to converge.'')
   \<and> map_of (written_cameras (main 32 ex_float32 ex_solvePnP ex_Rodrigues
        (ex_fs (Parsed ex_intrinsics_mixed) (Parsed ex_observations_mixed)))) ''cam4''
       = Some (PDict [(''error'', PStr ''cv2.solvePnP failed to converge.'')])
   \<and> map fst (written_cameras (main 32 ex_float32 ex_solvePnP ex_Rodrigues
        (ex_fs (Parsed ex_intrinsics_mixed) (Parsed ex_observations_mixed))))
       = [''cam1'', ''cam4'']"
proof -
  let ?fs = "ex_fs (Parsed ex_intrinsics_mixed) (Parsed ex_observations_mixed)"
  have s: "ex_solvePnP (points_3d ex_camera_flat) (points_2d ex_camera_flat) (K ex_camera_flat)
             (dist ex_camera_flat)
      = Inr (False, \<lparr>shape = [3, 1], elems = [0, 0, 0], dtype = float64\<rparr>, \<lparr>shape = [3, 1], elems = [0, 0, 0], dtype = float64\<rparr>)"
    by code_simp
  have l: "snd (load_calibration_data 32 ex_float32 ?fs INTRINSICS_FILE OBSERVATIONS_FILE)
      = Inr [(''cam1'', ex_camera), (''cam4'', ex_camera_flat)]"
    by (simp add: ex_load_mixed)
  have m: "(''cam4'', ex_camera_flat) \<in> set [(''cam1'', ex_camera), (''cam4'', ex_camera_flat)]"
    by simp
  note t = non_convergence_raises_for_that_camera_only[
      of ex_solvePnP ex_camera_flat "\<lparr>shape = [3, 1], elems = [0, 0, 0], dtype = float64\<rparr>"
        "\<lparr>shape = [3, 1], elems = [0, 0, 0], dtype = float64\<rparr>" 32 ex_float32
        "ex_fs (Parsed ex_intrinsics_mixed) (Parsed ex_observations_mixed)"
        "[(''cam1'', ex_camera), (''cam4'', ex_camera_flat)]" "''cam4''" ex_Rodrigues,
      OF s l m]
  from conjunct1[OF t] conjunct1[OF conjunct2[OF t]] conjunct1[OF conjunct2[OF conjunct2[OF t]]]
  show ?thesis by simp
qed

text \<open>
  The claim as stated fails on the message: on a camera for which the solver reports
  failure, the text of the exception raised is not \<^verbatim>\<open>PnP failed to converge\<close>.
\<close>

theorem non_convergence_message_differs:
  "calculate_extrinsics ex_solvePnP ex_Rodrigues ex_camera_flat
           = Inl (RuntimeError ''cv2.solvePnP failed to converge.'')
   \<and> py_str (RuntimeError ''cv2.solvePnP failed to converge.'') \<noteq> ''PnP failed to converge''"
  by code_simp

subsection \<open>C4: the homogeneous matrix is assembled from R and t\<close>

text \<open>
  Claim C4. For every successful solve (\<^verbatim>\<open>cv2.solvePnP\<close> reports success with a
  translation vector of three elements, \<^verbatim>\<open>cv2.Rodrigues\<close> returns a 3 by 3 matrix, as
  OpenCV documents), the returned 4 by 4 matrix has the bottom row \<open>[0, 0, 0, 1]\<close>, its
  top-left 3 by 3 block is the returned \<^verbatim>\<open>rotation_matrix_R\<close> entry for entry, and its
  top-right column is the returned \<^verbatim>\<open>translation_vector_t\<close>. The numbers of the matrix are
  Python floats; those of the two other lists are Python scalars of the kind of the
  arrays OpenCV returned (floats when these are floating-point arrays).
\<close>

theorem homogeneous_matrix_is_R_t_and_bottom_row:
  assumes "solvePnP (points_3d cam_data) (points_2d cam_data) (K cam_data) (dist cam_data) = Inr (True, rvec, tvec)"
    and "Rodrigues rvec = Inr R_matrix"
    and "shape R_matrix = [3, 3]"
    and "elems R_matrix = [r00, r01, r02, r10, r11, r12, r20, r21, r22]"
    and "elems tvec = [t0, t1, t2]"
  shows "calculate_extrinsics solvePnP Rodrigues cam_data =
     Inr (PDict
       [(''rotation_matrix_R'',
           PList (map (\<lambda>row. PList (map (py_scalar (dtype R_matrix)) row))
                    [[r00, r01, r02],
                     [r10, r11, r12],
                     [r20, r21, r22]])),
        (''translation_vector_t'', PList (map (py_scalar (dtype tvec)) [t0, t1, t2])),
        (''T_homogeneous_matrix_4x4'',
           PList [PList [PFloat r00, PFloat r01, PFloat r02, PFloat t0],
                  PList [PFloat r10, PFloat r11, PFloat r12, PFloat t1],
                  PList [PFloat r20, PFloat r21, PFloat r22, PFloat t2],
                  PList [PFloat 0, PFloat 0, PFloat 0, PFloat 1]]),
        (''R_Rodrigues_vector'', tolist (flatten rvec))])"
proof -
  have b: "broadcast_to [3, 3] R_matrix = Inr [r00, r01, r02, r10, r11, r12, r20, r21, r22]"
    using assms(3,4) by (simp add: broadcast_to_def Let_def upt_3)
  let ?T1 = "\<lparr>rows = [[r00, r01, r02, 0], [r10, r11, r12, 0], [r20, r21, r22, 0],
                       [0, 0, 0, 1]],
              cell_dtype = float64\<rparr>"
  let ?T = "\<lparr>rows = [[r00, r01, r02, t0], [r10, r11, r12, t1], [r20, r21, r22, t2],
                      [0, 0, 0, 1]],
             cell_dtype = float64\<rparr>"
  have T1: "setitem_block (np_identity 4 float64) 3 3 R_matrix = Inr ?T1"
    by (simp add: setitem_block_def np_identity_dims b upt_4) (simp add: np_identity_4)
  have f: "flatten tvec = \<lparr>shape = [3], elems = [t0, t1, t2], dtype = dtype tvec\<rparr>"
    using assms(5) by (simp add: flatten_def)
  have bt: "broadcast_to [3] (flatten tvec) = Inr [t0, t1, t2]"
    unfolding f by (simp add: broadcast_to_def Let_def upt_3)
  have l4: "length (rows ?T1) = 4"
    by simp
  have T: "setitem_column ?T1 3 3 (flatten tvec) = Inr ?T"
    unfolding setitem_column_def l4 by (simp add: ncols_def bt upt_4)
  have R: "tolist R_matrix =
      PList (map (\<lambda>row. PList (map (py_scalar (dtype R_matrix)) row))
                    [[r00, r01, r02],
                     [r10, r11, r12],
                     [r20, r21, r22]])"
    using assms(3,4) by (simp add: tolist_def upt_3)
  have t: "tolist (flatten tvec) = PList (map (py_scalar (dtype tvec)) [t0, t1, t2])"
    using assms(5) by (simp add: tolist_flatten)
  have M: "matrix_tolist ?T =
           PList [PList [PFloat r00, PFloat r01, PFloat r02, PFloat t0],
                  PList [PFloat r10, PFloat r11, PFloat r12, PFloat t1],
                  PList [PFloat r20, PFloat r21, PFloat r22, PFloat t2],
                  PList [PFloat 0, PFloat 0, PFloat 0, PFloat 1]]"
    by (simp add: matrix_tolist_def)
  show ?thesis
    by (simp only: calculate_extrinsics_def assms(1,2) T1 T R t M sum.case prod.case
          simp_thms if_True if_False)
qed

theorem homogeneous_matrix_is_R_t_and_bottom_row_witness:
  "calculate_extrinsics ex_solvePnP ex_Rodrigues ex_camera =
     Inr (PDict
       [(''rotation_matrix_R'',
           PList [PList [PFloat 1, PFloat 2, PFloat 3],
                  PList [PFloat 4, PFloat 5, PFloat 6],
                  PList [PFloat 7, PFloat 8, PFloat 9]]),
        (''translation_vector_t'', PList [PFloat 320, PFloat 240, PFloat 1120]),
        (''T_homogeneous_matrix_4x4'',
           PList [PList [PFloat 1, PFloat 2, PFloat 3, PFloat 320],
                  PList [PFloat 4, PFloat 5, PFloat 6, PFloat 240],
                  PList [PFloat 7, PFloat 8, PFloat 9, PFloat 1120],
                  PList [PFloat 0, PFloat 0, PFloat 0, PFloat 1]]),
        (''R_Rodrigues_vector'',
           tolist (flatten \<lparr>shape = [3, 1], elems = [1, 0, 0], dtype = float64\<rparr>))])"
proof -
  let ?rvec = "\<lparr>shape = [3, 1], elems = [1, 0, 0 :: int], dtype = float64\<rparr>"
  let ?tvec = "\<lparr>shape = [3, 1], elems = [320, 240, 1120 :: int], dtype = float64\<rparr>"
  let ?R = "\<lparr>shape = [3, 3], elems = [1, 2, 3, 4, 5, 6, 7, 8, 9 :: int], dtype = float64\<rparr>"
  have s: "ex_solvePnP (points_3d ex_camera) (points_2d ex_camera) (K ex_camera) (dist ex_camera)
      = Inr (True, ?rvec, ?tvec)"
    by code_simp
  have r: "ex_Rodrigues ?rvec = Inr ?R" by code_simp
  have sh: "shape ?R = [3, 3]" by simp
  have el: "elems ?R = [1, 2, 3, 4, 5, 6, 7, 8, 9]" by simp
  have tl: "elems ?tvec = [320, 240, 1120]" by simp
  from homogeneous_matrix_is_R_t_and_bottom_row[
      of ex_solvePnP ex_camera ?rvec ?tvec ex_Rodrigues ?R 1 2 3 4 5 6 7 8 9 320 240 1120,
      OF s r sh el tl]
  show ?thesis by simp
qed

subsection \<open>C10: the four results come from one rvec and one tvec\<close>

text \<open>
  Claim C10. For every successful solve there are one rotation vector and one translation
  vector, those \<^verbatim>\<open>cv2.solvePnP\<close> returned, such that \<^verbatim>\<open>R_Rodrigues_vector\<close> is the
  flattening of that rotation vector, \<^verbatim>\<open>rotation_matrix_R\<close> is \<^verbatim>\<open>cv2.Rodrigues\<close> of the
  same vector, \<^verbatim>\<open>translation_vector_t\<close> is the flattening of that translation vector, and
  (for a well-formed rotation matrix and a translation of three elements) the top-right
  column of the homogeneous matrix holds the same three elements.
\<close>

theorem solve_results_share_one_rvec_and_tvec:
  assumes "calculate_extrinsics solvePnP Rodrigues cam_data = Inr res"
  shows "\<exists>rvec tvec R_matrix T_matrix.
      solvePnP (points_3d cam_data) (points_2d cam_data) (K cam_data) (dist cam_data) = Inr (True, rvec, tvec)
    \<and> Rodrigues rvec = Inr R_matrix
    \<and> res = PDict
       [(''rotation_matrix_R'', tolist R_matrix),
        (''translation_vector_t'', tolist (flatten tvec)),
        (''T_homogeneous_matrix_4x4'', matrix_tolist T_matrix),
        (''R_Rodrigues_vector'', tolist (flatten rvec))]
    \<and> (wf_array R_matrix \<and> length (elems tvec) = 3 \<longrightarrow>
          map (\<lambda>row. row ! 3) (take 3 (rows T_matrix)) = elems tvec)"
proof -
  from assms obtain rvec tvec R_matrix T1 T_matrix where
    s: "solvePnP (points_3d cam_data) (points_2d cam_data) (K cam_data) (dist cam_data) = Inr (True, rvec, tvec)"
    and r: "Rodrigues rvec = Inr R_matrix"
    and b: "setitem_block (np_identity 4 float64) 3 3 R_matrix = Inr T1"
    and c: "setitem_column T1 3 3 (flatten tvec) = Inr T_matrix"
    and res: "res = PDict
       [(''rotation_matrix_R'', tolist R_matrix),
        (''translation_vector_t'', tolist (flatten tvec)),
        (''T_homogeneous_matrix_4x4'', matrix_tolist T_matrix),
        (''R_Rodrigues_vector'', tolist (flatten rvec))]"
    by (rule calculate_extrinsics_Inr)
  have col: "map (\<lambda>row. row ! 3) (take 3 (rows T_matrix)) = elems tvec"
    if wf: "wf_array R_matrix" and len: "length (elems tvec) = 3"
  proof -
    from b obtain vals where v: "broadcast_to [3, 3] R_matrix = Inr vals"
      and T1: "T1 = \<lparr>rows = [take 3 vals @ [0], take 3 (drop 3 vals) @ [0],
                            take 3 (drop 6 vals) @ [0], [0, 0, 0, 1]],
                    cell_dtype = float64\<rparr>"
      by (rule setitem_block_rows)
    from broadcast_to_length[OF wf v] have lv: "length vals = 9" by simp
    from len obtain t0 t1 t2 where t: "elems tvec = [t0, t1, t2]"
      by (auto simp: numeral_3_eq_3 length_Suc_conv)
    from setitem_column_rows[OF c[unfolded T1] t] show ?thesis
      using lv t by simp
  qed
  from s r res col show ?thesis by blast
qed

theorem solve_results_share_one_rvec_and_tvec_witness:
  "calculate_extrinsics ex_solvePnP ex_Rodrigues ex_camera = Inr ex_pose
   \<and> wf_array \<lparr>shape = [3, 3], elems = [1, 2, 3, 4, 5, 6, 7, 8, 9 :: int], dtype = float64\<rparr>
   \<and> (\<exists>T_matrix.
      ex_pose = PDict
       [(''rotation_matrix_R'',
           tolist \<lparr>shape = [3, 3], elems = [1, 2, 3, 4, 5, 6, 7, 8, 9], dtype = float64\<rparr>),
        (''translation_vector_t'',
           tolist (flatten \<lparr>shape = [3, 1], elems = [320, 240, 1120], dtype = float64\<rparr>)),
        (''T_homogeneous_matrix_4x4'', matrix_tolist T_matrix),
        (''R_Rodrigues_vector'', tolist (flatten \<lparr>shape = [3, 1], elems = [1, 0, 0], dtype = float64\<rparr>))]
    \<and> map (\<lambda>row. row ! 3) (take 3 (rows T_matrix)) = [320, 240, 1120])"
proof -
  let ?rvec = "\<lparr>shape = [3, 1], elems = [1, 0, 0 :: int], dtype = float64\<rparr>"
  let ?tvec = "\<lparr>shape = [3, 1], elems = [320, 240, 1120 :: int], dtype = float64\<rparr>"
  let ?R = "\<lparr>shape = [3, 3], elems = [1, 2, 3, 4, 5, 6, 7, 8, 9 :: int], dtype = float64\<rparr>"
  have s: "ex_solvePnP (points_3d ex_camera) (points_2d ex_camera) (K ex_camera) (dist ex_camera)
      = Inr (True, ?rvec, ?tvec)"
    by code_simp
  have r: "ex_Rodrigues ?rvec = Inr ?R" by code_simp
  have wf: "wf_array ?R" by code_simp
  from solve_results_share_one_rvec_and_tvec[OF ex_solve_camera]
  obtain rvec tvec R_matrix T_matrix where
    s': "ex_solvePnP (points_3d ex_camera) (points_2d ex_camera) (K ex_camera) (dist ex_camera)
        = Inr (True, rvec, tvec)"
    and r': "ex_Rodrigues rvec = Inr R_matrix"
    and p: "ex_pose = PDict
       [(''rotation_matrix_R'', tolist R_matrix),
        (''translation_vector_t'', tolist (flatten tvec)),
        (''T_homogeneous_matrix_4x4'', matrix_tolist T_matrix),
        (''R_Rodrigues_vector'', tolist (flatten rvec))]"
    and c: "wf_array R_matrix \<and> length (elems tvec) = 3 \<longrightarrow>
          map (\<lambda>row. row ! 3) (take 3 (rows T_matrix)) = elems tvec"
    by blast
  from s s' have rv: "rvec = ?rvec" and tv: "tvec = ?tvec" by simp_all
  from r r' rv have R: "R_matrix = ?R" by simp
  have len: "length (elems ?tvec) = 3" by simp
  from mp[OF c[unfolded R tv] conjI[OF wf len]]
  have col: "map (\<lambda>row. row ! 3) (take 3 (rows T_matrix)) = [320, 240, 1120]" by simp
  from p[unfolded R tv rv] col
  have "\<exists>T_matrix.
      ex_pose = PDict
       [(''rotation_matrix_R'', tolist ?R),
        (''translation_vector_t'', tolist (flatten ?tvec)),
        (''T_homogeneous_matrix_4x4'', matrix_tolist T_matrix),
        (''R_Rodrigues_vector'', tolist (flatten ?rvec))]
    \<and> map (\<lambda>row. row ! 3) (take 3 (rows T_matrix)) = [320, 240, 1120]"
    by (intro exI[of _ T_matrix] conjI)
  with ex_solve_camera wf show ?thesis by (intro conjI)
qed

subsection \<open>C6: 32-bit arrays go in, 64-bit numbers come out\<close>



end
